theory Spec2Isabelle
  imports Complex_Main "HOL-Library.Sublist"
begin

section \<open>Python values\<close>

text \<open>
  The alert payload is parsed JSON: nested dictionaries whose values may have any JSON
  type. A dictionary is an association list read with \<open>map_of\<close> (the first binding of a
  key is the dictionary's value for it). Strings are byte lists; \<open>str.lower\<close> is modelled
  on ASCII letters, every other byte is left unchanged.
\<close>

datatype json =
    JNull
  | JBool bool
  | JInt int
  | JFloat real
  | JStr string
  | JList "json list"
  | JDict "(string \<times> json) list"

type_synonym dict = "(string \<times> json) list"

text \<open>
  Exceptions derived from Python's \<open>Exception\<close>. \<open>AttributeError t a\<close> is raised by an
  attribute access \<open>a\<close> on a value of type \<open>t\<close>; \<open>IndexError\<close> by an index out of range;
  \<open>ValueError\<close> and \<open>TypeError\<close> by a value a constructor rejects; \<open>Error m\<close> is any other
  exception. The string of each is its \<open>str()\<close>.
\<close>

datatype exn =
    AttributeError string string
  | IndexError string
  | ValueError string
  | TypeError string
  | Error string

fun str_exn :: "exn \<Rightarrow> string" where
  "str_exn (AttributeError t a) =
     [CHR 0x27] @ t @ [CHR 0x27] @ '' object has no attribute '' @ [CHR 0x27] @ a @ [CHR 0x27]"
| "str_exn (IndexError m) = m"
| "str_exn (ValueError m) = m"
| "str_exn (TypeError m) = m"
| "str_exn (Error m) = m"

fun type_name :: "json \<Rightarrow> string" where
  "type_name JNull = ''NoneType''"
| "type_name (JBool b) = ''bool''"
| "type_name (JInt i) = ''int''"
| "type_name (JFloat r) = ''float''"
| "type_name (JStr s) = ''str''"
| "type_name (JList xs) = ''list''"
| "type_name (JDict kvs) = ''dict''"

text \<open>Truth value testing, as \<open>or\<close>, \<open>and\<close>, \<open>not\<close> and \<open>if\<close> apply it.\<close>

fun truthy :: "json \<Rightarrow> bool" where
  "truthy JNull = False"
| "truthy (JBool b) = b"
| "truthy (JInt i) = (i \<noteq> 0)"
| "truthy (JFloat r) = (r \<noteq> 0)"
| "truthy (JStr s) = (s \<noteq> [])"
| "truthy (JList xs) = (xs \<noteq> [])"
| "truthy (JDict kvs) = (kvs \<noteq> [])"

text \<open>\<open>d.get(key, default)\<close> on a dictionary that is known to be one.\<close>

definition get_or :: "dict \<Rightarrow> string \<Rightarrow> json \<Rightarrow> json" where
  "get_or d k dflt = (case map_of d k of Some v \<Rightarrow> v | None \<Rightarrow> dflt)"

text \<open>\<open>v.get(key, default)\<close> on any value: only a dictionary has the method.\<close>

fun dict_get :: "json \<Rightarrow> string \<Rightarrow> json \<Rightarrow> exn + json" where
  "dict_get (JDict kvs) k dflt = Inr (get_or kvs k dflt)"
| "dict_get v k dflt = Inl (AttributeError (type_name v) ''get'')"

definition ascii_lower :: "char \<Rightarrow> char" where
  "ascii_lower c =
     (case map_of (zip ''ABCDEFGHIJKLMNOPQRSTUVWXYZ'' ''abcdefghijklmnopqrstuvwxyz'') c of
        Some l \<Rightarrow> l
      | None \<Rightarrow> c)"

definition ascii_upper :: "char \<Rightarrow> char" where
  "ascii_upper c =
     (case map_of (zip ''abcdefghijklmnopqrstuvwxyz'' ''ABCDEFGHIJKLMNOPQRSTUVWXYZ'') c of
        Some u \<Rightarrow> u
      | None \<Rightarrow> c)"

definition is_lower :: "char \<Rightarrow> bool" where
  "is_lower c = (c \<in> set ''abcdefghijklmnopqrstuvwxyz'')"

definition is_upper :: "char \<Rightarrow> bool" where
  "is_upper c = (c \<in> set ''ABCDEFGHIJKLMNOPQRSTUVWXYZ'')"

text \<open>\<open>v.lower()\<close>: only a string has the method.\<close>

fun str_lower :: "json \<Rightarrow> exn + string" where
  "str_lower (JStr s) = Inr (map ascii_lower s)"
| "str_lower v = Inl (AttributeError (type_name v) ''lower'')"

text \<open>\<open>needle in haystack\<close> on strings: the substring test.\<close>

fun str_contains :: "string \<Rightarrow> string \<Rightarrow> bool" where
  "str_contains needle [] = (needle = [])"
| "str_contains needle (c # cs) = (prefix needle (c # cs) \<or> str_contains needle cs)"

section \<open>Alert classifier and resource extractor\<close>

definition classify_alert :: "json \<Rightarrow> exn + string" where
  "classify_alert alert_data =
     (case dict_get alert_data ''incident'' (JDict []) of
        Inl e \<Rightarrow> Inl e
      | Inr incident \<Rightarrow>
         (case dict_get incident ''condition_display_name'' (JStr '''') of
            Inl e \<Rightarrow> Inl e
          | Inr v \<Rightarrow>
             (case str_lower v of
                Inl e \<Rightarrow> Inl e
              | Inr condition_name \<Rightarrow>
                  Inr (if str_contains ''cpu'' condition_name then ''high_cpu''
                       else if str_contains ''error'' condition_name
                             \<or> str_contains ''5xx'' condition_name then ''error_rate_spike''
                       else if str_contains ''memory'' condition_name then ''memory_leak''
                       else if str_contains ''uptime'' condition_name
                             \<or> str_contains ''availability'' condition_name then ''service_down''
                       else ''unknown''))))"

text \<open>
  The dictionary display evaluates its values in order: \<open>type\<close>, \<open>labels\<close>, then the
  name, whose \<open>or\<close> looks the service name up only when the instance name is falsy.
\<close>

definition extract_resource_info :: "json \<Rightarrow> exn + dict" where
  "extract_resource_info alert_data =
     (case dict_get alert_data ''incident'' (JDict []) of
        Inl e \<Rightarrow> Inl e
      | Inr incident \<Rightarrow>
         (case dict_get incident ''resource'' (JDict []) of
            Inl e \<Rightarrow> Inl e
          | Inr resource \<Rightarrow>
             (case dict_get resource ''type'' (JStr ''unknown'') of
                Inl e \<Rightarrow> Inl e
              | Inr ty \<Rightarrow>
                 (case dict_get resource ''labels'' (JDict []) of
                    Inl e \<Rightarrow> Inl e
                  | Inr labels \<Rightarrow>
                     (case dict_get labels ''instance_name'' JNull of
                        Inl e \<Rightarrow> Inl e
                      | Inr instance_name \<Rightarrow>
                         (if truthy instance_name
                          then Inr [(''type'', ty), (''labels'', labels), (''name'', instance_name)]
                          else
                            (case dict_get labels ''service_name'' (JStr ''unknown'') of
                               Inl e \<Rightarrow> Inl e
                             | Inr service_name \<Rightarrow>
                                 Inr [(''type'', ty), (''labels'', labels),
                                      (''name'', service_name)])))))))"

section \<open>Configuration, collaborators and state\<close>

text \<open>
  The module-level configuration, read from the process environment: \<open>os.environ.get\<close>
  gives \<open>None\<close> for an unset variable that has no default.
\<close>

record config =
  PROJECT_ID :: "string option"
  ZONE :: string
  REGION :: string
  SENDGRID_API_KEY :: "string option"
  SLACK_WEBHOOK_URL :: "string option"
  NOTIFICATION_EMAIL :: string
  SENDGRID_SENDER_EMAIL :: string

text \<open>
  An operation handle returned by a client. \<open>op_name\<close> is \<open>None\<close> when the object has no
  attribute \<open>name\<close>; \<open>op_has_result\<close> says whether it has a method \<open>result\<close>.
\<close>

record operation =
  op_id :: nat
  op_name :: "string option"
  op_has_result :: bool

record env_var =
  ev_name :: string
  ev_value :: string

record container =
  image :: string
  env :: "env_var list"

text \<open>The revision template of a service; \<open>max_instance_count\<close> is \<open>template.scaling.max_instance_count\<close>.\<close>

record revision_template =
  containers :: "container list"
  max_instance_count :: int

record service =
  name :: string
  template :: revision_template

text \<open>
  The request messages of the client libraries. A stop or start request names the
  instance; an unset field is \<open>None\<close>. An update request carries the service and the
  field mask, a list of paths.
\<close>

record instance_request =
  rq_project :: "string option"
  rq_zone :: string
  rq_instance :: "string option"

record update_service_request =
  req_service :: service
  update_mask :: "string list"

text \<open>
  How the client library builds an update request from a mask given as a string: the
  string is read as the JSON form of a field mask, comma-separated paths in camel case,
  each converted to snake case; a path that contains an underscore is rejected with
  \<open>ValueError\<close>.
\<close>

fun camel_case_to_snake_case :: "string \<Rightarrow> string \<Rightarrow> exn + string" where
  "camel_case_to_snake_case path_name [] = Inr []"
| "camel_case_to_snake_case path_name (c # cs) =
     (if c = CHR ''_''
      then Inl (ValueError (''Fail to parse FieldMask: Path name '' @ path_name
                  @ '' must not contain '' @ [CHR 0x22, CHR ''_'', CHR 0x22] @ ''s.''))
      else (case camel_case_to_snake_case path_name cs of
              Inl e \<Rightarrow> Inl e
            | Inr rest \<Rightarrow> Inr ((if is_upper c then [CHR ''_'', ascii_lower c] else [c]) @ rest)))"

fun split_commas :: "string \<Rightarrow> string list" where
  "split_commas [] = [[]]"
| "split_commas (c # cs) =
     (if c = CHR '','' then [] # split_commas cs
      else (case split_commas cs of p # ps \<Rightarrow> (c # p) # ps | [] \<Rightarrow> [[c]]))"

fun parse_paths :: "string list \<Rightarrow> exn + string list" where
  "parse_paths [] = Inr []"
| "parse_paths (p # ps) =
     (case camel_case_to_snake_case p p of
        Inl e \<Rightarrow> Inl e
      | Inr q \<Rightarrow> (case parse_paths ps of Inl e \<Rightarrow> Inl e | Inr qs \<Rightarrow> Inr (q # qs)))"

definition field_mask_from_json_string :: "string \<Rightarrow> exn + string list" where
  "field_mask_from_json_string mask_string =
     (if mask_string = [] then Inr [] else parse_paths (split_commas mask_string))"

definition library_update_service_request :: "service \<Rightarrow> string \<Rightarrow> exn + update_service_request" where
  "library_update_service_request svc mask_string =
     (case field_mask_from_json_string mask_string of
        Inl e \<Rightarrow> Inl e
      | Inr paths \<Rightarrow> Inr \<lparr>req_service = svc, update_mask = paths\<rparr>)"

text \<open>The calls the engine issues to its collaborators, in the order it issues them.\<close>

datatype call =
    Stop instance_request
  | Start instance_request
  | WaitZoneOperation string string string
  | OperationResult operation "int option"
  | GetService string
  | UpdateService update_service_request
  | HttpPost "string option" "(string \<times> string) list" json
  | LoggerInfo json

text \<open>
  The collaborators are parameters: each is a transition of an external world \<open>'w\<close> that
  either raises (\<open>Inl e\<close>, or \<open>Some e\<close> for a call with no result) or returns. The request
  constructors \<open>stop_instance_request\<close>, \<open>start_instance_request\<close> and
  \<open>update_service_request\<close> build a message from their arguments or raise; they issue
  no call.
  \<open>requests_post\<close> stands for \<open>requests.post\<close> followed by \<open>raise_for_status\<close>,
  \<open>logger_info_json\<close> for \<open>json.dumps\<close> followed by \<open>logger.info\<close>. \<open>isoformat\<close> and
  \<open>strftime\<close> format the clock; \<open>str_other\<close> is Python's \<open>str\<close> on values that are not
  strings.
\<close>

record 'w api =
  stop_instance_request :: "string option \<Rightarrow> string \<Rightarrow> json \<Rightarrow> exn + instance_request"
  start_instance_request :: "string option \<Rightarrow> string \<Rightarrow> json \<Rightarrow> exn + instance_request"
  update_service_request :: "service \<Rightarrow> string \<Rightarrow> exn + update_service_request"
  client_stop :: "instance_request \<Rightarrow> 'w \<Rightarrow> (exn + operation) \<times> 'w"
  client_start :: "instance_request \<Rightarrow> 'w \<Rightarrow> (exn + operation) \<times> 'w"
  client_has_wait :: bool
  client_wait :: "string \<Rightarrow> string \<Rightarrow> string \<Rightarrow> 'w \<Rightarrow> exn option \<times> 'w"
  operation_result :: "operation \<Rightarrow> int option \<Rightarrow> 'w \<Rightarrow> exn option \<times> 'w"
  get_service :: "string \<Rightarrow> 'w \<Rightarrow> (exn + service) \<times> 'w"
  update_service :: "update_service_request \<Rightarrow> 'w \<Rightarrow> (exn + operation) \<times> 'w"
  requests_post :: "string option \<Rightarrow> (string \<times> string) list \<Rightarrow> json \<Rightarrow> 'w \<Rightarrow> exn option \<times> 'w"
  logger_info_json :: "json \<Rightarrow> 'w \<Rightarrow> exn option \<times> 'w"
  isoformat :: "int \<Rightarrow> string"
  strftime :: "int \<Rightarrow> string"
  str_other :: "json \<Rightarrow> string"

text \<open>
  The state threaded through the engine: the external world, the calls issued so far,
  and the clock in seconds, which \<open>time.sleep\<close> advances.
\<close>

record 'w state =
  world :: 'w
  calls :: "call list"
  clock :: int

definition invoke :: "call \<Rightarrow> ('w \<Rightarrow> 'r \<times> 'w) \<Rightarrow> 'w state \<Rightarrow> 'r \<times> 'w state" where
  "invoke c f s =
     (case f (world s) of (r, w) \<Rightarrow> (r, s\<lparr>world := w, calls := calls s @ [c]\<rparr>))"

definition py_str :: "'w api \<Rightarrow> json \<Rightarrow> string" where
  "py_str a v = (case v of JStr s \<Rightarrow> s | _ \<Rightarrow> str_other a v)"

definition str_opt :: "string option \<Rightarrow> string" where
  "str_opt v = (case v of None \<Rightarrow> ''None'' | Some s \<Rightarrow> s)"

definition truthy_opt :: "string option \<Rightarrow> bool" where
  "truthy_opt v = (case v of None \<Rightarrow> False | Some s \<Rightarrow> s \<noteq> [])"

definition status_is :: "dict \<Rightarrow> string \<Rightarrow> bool" where
  "status_is result st = (map_of result ''status'' = Some (JStr st))"

section \<open>Operation waiter\<close>

text \<open>The manual polling loop: sleep five seconds while the timeout has not elapsed.\<close>

function manual_polling :: "int \<Rightarrow> int \<Rightarrow> int \<Rightarrow> int" where
  "manual_polling start_time timeout now =
     (if now - start_time < timeout then manual_polling start_time timeout (now + 5) else now)"
  by pat_completeness auto
termination
  by (relation "measure (\<lambda>(start_time, timeout, now). nat (timeout - (now - start_time)))") auto

declare manual_polling.simps [simp del]

text \<open>
  \<open>wait_for_operation\<close> returns \<open>None\<close> when the wait returned and \<open>Some e\<close> when it raised
  (its handler logs and re-raises). \<open>client\<close> says whether a client was passed.
\<close>

definition zone_wait_args ::
  "'w api \<Rightarrow> operation \<Rightarrow> bool \<Rightarrow> string option \<Rightarrow> string \<Rightarrow> (string \<times> string) option" where
  "zone_wait_args a operation client project zone =
     (case (project, op_name operation) of
        (Some p, Some n) \<Rightarrow>
          if client \<and> client_has_wait a \<and> p \<noteq> [] \<and> zone \<noteq> [] then Some (n, p) else None
      | _ \<Rightarrow> None)"

definition wait_for_operation ::
  "'w api \<Rightarrow> operation \<Rightarrow> string \<Rightarrow> bool \<Rightarrow> string option \<Rightarrow> string \<Rightarrow> int \<Rightarrow> 'w state
     \<Rightarrow> exn option \<times> 'w state" where
  "wait_for_operation a operation operation_type client project zone timeout s =
     (case zone_wait_args a operation client project zone of
        Some (n, p) \<Rightarrow> invoke (WaitZoneOperation n p zone) (client_wait a n p zone) s
      | None \<Rightarrow>
          if op_has_result operation
          then invoke (OperationResult operation (Some timeout))
                 (operation_result a operation (Some timeout)) s
          else
            (let now = manual_polling (clock s) timeout (clock s) in
             (if now - clock s \<ge> timeout
              then Some (Error (''Operation '' @ operation_type @ '' timed out after ''
                                 @ py_str a (JInt timeout) @ '' seconds''))
              else None, s\<lparr>clock := now\<rparr>)))"

section \<open>Remediation actions\<close>

definition vm_restart_success :: "'w api \<Rightarrow> json \<Rightarrow> dict" where
  "vm_restart_success a instance_name =
     [(''action'', JStr ''vm_restart''), (''status'', JStr ''success''),
      (''instance'', instance_name),
      (''message'', JStr (''Successfully restarted VM instance '' @ py_str a instance_name))]"

definition vm_restart_failed :: "json \<Rightarrow> exn \<Rightarrow> dict" where
  "vm_restart_failed instance_name e =
     [(''action'', JStr ''vm_restart''), (''status'', JStr ''failed''),
      (''instance'', instance_name), (''error'', JStr (str_exn e))]"

definition restart_vm_instance ::
  "'w api \<Rightarrow> config \<Rightarrow> json \<Rightarrow> 'w state \<Rightarrow> dict \<times> 'w state" where
  "restart_vm_instance a cfg instance_name s =
     (case stop_instance_request a (PROJECT_ID cfg) (ZONE cfg) instance_name of
        Inl e \<Rightarrow> (vm_restart_failed instance_name e, s)
      | Inr stop_request \<Rightarrow>
     (case invoke (Stop stop_request) (client_stop a stop_request) s of
        (Inl e, s1) \<Rightarrow> (vm_restart_failed instance_name e, s1)
      | (Inr stop_operation, s1) \<Rightarrow>
     (case wait_for_operation a stop_operation ''stop'' True (PROJECT_ID cfg) (ZONE cfg) 300 s1 of
        (Some e, s2) \<Rightarrow> (vm_restart_failed instance_name e, s2)
      | (None, s2) \<Rightarrow>
     (case start_instance_request a (PROJECT_ID cfg) (ZONE cfg) instance_name of
        Inl e \<Rightarrow> (vm_restart_failed instance_name e, s2)
      | Inr start_request \<Rightarrow>
     (case invoke (Start start_request) (client_start a start_request) s2 of
        (Inl e, s3) \<Rightarrow> (vm_restart_failed instance_name e, s3)
      | (Inr start_operation, s3) \<Rightarrow>
     (case wait_for_operation a start_operation ''start'' True (PROJECT_ID cfg) (ZONE cfg) 300 s3 of
        (Some e, s4) \<Rightarrow> (vm_restart_failed instance_name e, s4)
      | (None, s4) \<Rightarrow> (vm_restart_success a instance_name, s4)))))))"

definition service_path :: "'w api \<Rightarrow> config \<Rightarrow> json \<Rightarrow> string" where
  "service_path a cfg service_name =
     ''projects/'' @ str_opt (PROJECT_ID cfg) @ ''/locations/'' @ REGION cfg
       @ ''/services/'' @ py_str a service_name"

text \<open>The service object that carries the new ceiling: only its name and ceiling are set.\<close>

definition scaled_service :: "string \<Rightarrow> int \<Rightarrow> service" where
  "scaled_service path new_max_instances =
     \<lparr>name = path, template = \<lparr>containers = [], max_instance_count = new_max_instances\<rparr>\<rparr>"

definition scale_success :: "'w api \<Rightarrow> json \<Rightarrow> int \<Rightarrow> dict" where
  "scale_success a service_name new_max_instances =
     [(''action'', JStr ''cloud_run_scale''), (''status'', JStr ''success''),
      (''service'', service_name),
      (''message'', JStr (''Successfully scaled Cloud Run service '' @ py_str a service_name
          @ '' to max instances '' @ py_str a (JInt new_max_instances)))]"

definition scale_skipped :: "'w api \<Rightarrow> json \<Rightarrow> int \<Rightarrow> dict" where
  "scale_skipped a service_name new_max_instances =
     [(''action'', JStr ''cloud_run_scale''), (''status'', JStr ''skipped''),
      (''service'', service_name),
      (''message'', JStr (''Max instances already at or above target (''
          @ py_str a (JInt new_max_instances) @ '') for '' @ py_str a service_name))]"

definition scale_failed :: "json \<Rightarrow> exn \<Rightarrow> dict" where
  "scale_failed service_name e =
     [(''action'', JStr ''cloud_run_scale''), (''status'', JStr ''failed''),
      (''service'', service_name), (''error'', JStr (str_exn e))]"

definition scale_cloud_run_service ::
  "'w api \<Rightarrow> config \<Rightarrow> json \<Rightarrow> 'w state \<Rightarrow> dict \<times> 'w state" where
  "scale_cloud_run_service a cfg service_name s =
     (let path = service_path a cfg service_name in
      case invoke (GetService path) (get_service a path) s of
        (Inl e, s1) \<Rightarrow> (scale_failed service_name e, s1)
      | (Inr svc, s1) \<Rightarrow>
         (let current_max_instances =
                (if max_instance_count (template svc) \<noteq> 0
                 then max_instance_count (template svc) else 10);
              new_max_instances = min (current_max_instances + 5) 50
          in if new_max_instances > current_max_instances
             then
               (case update_service_request a (scaled_service path new_max_instances)
                       ''template.scaling.max_instance_count'' of
                  Inl e \<Rightarrow> (scale_failed service_name e, s1)
                | Inr update_request \<Rightarrow>
               (case invoke (UpdateService update_request)
                       (update_service a update_request) s1 of
                  (Inl e, s2) \<Rightarrow> (scale_failed service_name e, s2)
                | (Inr operation, s2) \<Rightarrow>
               (case invoke (OperationResult operation None)
                       (operation_result a operation None) s2 of
                  (Some e, s3) \<Rightarrow> (scale_failed service_name e, s3)
                | (None, s3) \<Rightarrow> (scale_success a service_name new_max_instances, s3))))
             else (scale_skipped a service_name new_max_instances, s1)))"

text \<open>
  The loop over the environment variables: the first variable named
  \<open>RESTART_TIMESTAMP\<close> gets the new value and the loop stops; the flag says whether one
  was found.
\<close>

fun update_timestamp :: "string \<Rightarrow> env_var list \<Rightarrow> env_var list \<times> bool" where
  "update_timestamp ts [] = ([], False)"
| "update_timestamp ts (v # vs) =
     (if ev_name v = ''RESTART_TIMESTAMP'' then (v\<lparr>ev_value := ts\<rparr> # vs, True)
      else (case update_timestamp ts vs of (vs', found) \<Rightarrow> (v # vs', found)))"

definition restart_template :: "string \<Rightarrow> revision_template \<Rightarrow> exn + revision_template" where
  "restart_template ts new_template =
     (case containers new_template of
        [] \<Rightarrow> Inl (IndexError ''list index out of range'')
      | c # cs \<Rightarrow>
         (case update_timestamp ts (env c) of
            (vs, timestamp_env_var_found) \<Rightarrow>
              Inr (new_template\<lparr>containers :=
                     c\<lparr>env := (if timestamp_env_var_found then vs
                                else vs @ [\<lparr>ev_name = ''RESTART_TIMESTAMP'', ev_value = ts\<rparr>])\<rparr>
                     # cs\<rparr>)))"

definition restart_success :: "'w api \<Rightarrow> json \<Rightarrow> dict" where
  "restart_success a service_name =
     [(''action'', JStr ''cloud_run_restart''), (''status'', JStr ''success''),
      (''service'', service_name),
      (''message'', JStr (''Successfully initiated restart (new revision deployment) for Cloud Run service ''
          @ py_str a service_name))]"

definition restart_failed :: "json \<Rightarrow> exn \<Rightarrow> dict" where
  "restart_failed service_name e =
     [(''action'', JStr ''cloud_run_restart''), (''status'', JStr ''failed''),
      (''service'', service_name), (''error'', JStr (str_exn e))]"

definition restart_cloud_run_service ::
  "'w api \<Rightarrow> config \<Rightarrow> json \<Rightarrow> 'w state \<Rightarrow> dict \<times> 'w state" where
  "restart_cloud_run_service a cfg service_name s =
     (let path = service_path a cfg service_name in
      case invoke (GetService path) (get_service a path) s of
        (Inl e, s1) \<Rightarrow> (restart_failed service_name e, s1)
      | (Inr svc, s1) \<Rightarrow>
     (case restart_template (isoformat a (clock s1)) (template svc) of
        Inl e \<Rightarrow> (restart_failed service_name e, s1)
      | Inr new_template \<Rightarrow>
     (case update_service_request a \<lparr>name = path, template = new_template\<rparr> ''template'' of
        Inl e \<Rightarrow> (restart_failed service_name e, s1)
      | Inr update_request \<Rightarrow>
     (case invoke (UpdateService update_request) (update_service a update_request) s1 of
        (Inl e, s2) \<Rightarrow> (restart_failed service_name e, s2)
      | (Inr operation, s2) \<Rightarrow>
     (case invoke (OperationResult operation None) (operation_result a operation None) s2 of
        (Some e, s3) \<Rightarrow> (restart_failed service_name e, s3)
      | (None, s3) \<Rightarrow> (restart_success a service_name, s3))))))"

section \<open>Decision engine\<close>

definition alert_only_unsupported :: "'w api \<Rightarrow> json \<Rightarrow> dict" where
  "alert_only_unsupported a resource_type =
     [(''action'', JStr ''alert_only''),
      (''reason'', JStr (''Unsupported resource type: '' @ py_str a resource_type))]"

definition handle_high_cpu ::
  "'w api \<Rightarrow> config \<Rightarrow> dict \<Rightarrow> json \<Rightarrow> 'w state \<Rightarrow> dict \<times> 'w state" where
  "handle_high_cpu a cfg resource_info alert_data s =
     (let resource_type = get_or resource_info ''type'' JNull;
          resource_name = get_or resource_info ''name'' JNull
      in if resource_type = JStr ''gce_instance'' then restart_vm_instance a cfg resource_name s
         else if resource_type = JStr ''cloud_run_revision''
         then scale_cloud_run_service a cfg resource_name s
         else (alert_only_unsupported a resource_type, s))"

definition handle_service_down ::
  "'w api \<Rightarrow> config \<Rightarrow> dict \<Rightarrow> json \<Rightarrow> 'w state \<Rightarrow> dict \<times> 'w state" where
  "handle_service_down a cfg resource_info alert_data s =
     (let resource_type = get_or resource_info ''type'' JNull;
          resource_name = get_or resource_info ''name'' JNull
      in if resource_type = JStr ''gce_instance'' then restart_vm_instance a cfg resource_name s
         else if resource_type = JStr ''cloud_run_revision''
         then restart_cloud_run_service a cfg resource_name s
         else (alert_only_unsupported a resource_type, s))"

definition handle_memory_leak ::
  "'w api \<Rightarrow> config \<Rightarrow> dict \<Rightarrow> json \<Rightarrow> 'w state \<Rightarrow> dict \<times> 'w state" where
  "handle_memory_leak a cfg resource_info alert_data s =
     handle_service_down a cfg resource_info alert_data s"

definition handle_error_rate_spike ::
  "'w api \<Rightarrow> config \<Rightarrow> dict \<Rightarrow> json \<Rightarrow> 'w state \<Rightarrow> dict \<times> 'w state" where
  "handle_error_rate_spike a cfg resource_info alert_data s =
     (let resource_type = get_or resource_info ''type'' JNull;
          resource_name = get_or resource_info ''name'' JNull
      in if resource_type = JStr ''cloud_run_revision''
         then
           (case scale_cloud_run_service a cfg resource_name s of
              (scale_result, s1) \<Rightarrow>
                if get_or scale_result ''status'' JNull \<noteq> JStr ''success''
                then restart_cloud_run_service a cfg resource_name s1
                else (scale_result, s1))
         else handle_service_down a cfg resource_info alert_data s)"

definition handle_unknown_alert :: "dict \<Rightarrow> json \<Rightarrow> dict" where
  "handle_unknown_alert resource_info alert_data =
     [(''action'', JStr ''alert_only''),
      (''reason'', JStr ''Unknown alert type - manual intervention required''),
      (''alert_data'', alert_data)]"

text \<open>The dispatch table built by the constructor, keyed by alert type.\<close>

type_synonym 'w handler = "'w api \<Rightarrow> config \<Rightarrow> dict \<Rightarrow> json \<Rightarrow> 'w state \<Rightarrow> dict \<times> 'w state"

definition recovery_actions :: "string \<Rightarrow> 'w handler option" where
  "recovery_actions =
     [''high_cpu'' \<mapsto> handle_high_cpu,
      ''service_down'' \<mapsto> handle_service_down,
      ''memory_leak'' \<mapsto> handle_memory_leak,
      ''error_rate_spike'' \<mapsto> handle_error_rate_spike]"

text \<open>The step of \<open>process_alert\<close> that executes the healing action.\<close>

definition execute_healing_action ::
  "'w api \<Rightarrow> config \<Rightarrow> string \<Rightarrow> dict \<Rightarrow> json \<Rightarrow> 'w state \<Rightarrow> dict \<times> 'w state" where
  "execute_healing_action a cfg alert_type resource_info alert_data s =
     (case recovery_actions alert_type of
        Some handler \<Rightarrow> handler a cfg resource_info alert_data s
      | None \<Rightarrow> (handle_unknown_alert resource_info alert_data, s))"

section \<open>Reporter: log and notifications\<close>

text \<open>\<open>str.title\<close>: a cased character is upper case after an uncased one, lower case after a cased one.\<close>

fun title_from :: "bool \<Rightarrow> string \<Rightarrow> string" where
  "title_from previous_is_cased [] = []"
| "title_from previous_is_cased (c # cs) =
     (if is_lower c then (if previous_is_cased then c else ascii_upper c) # title_from True cs
      else if is_upper c then (if previous_is_cased then ascii_lower c else c) # title_from True cs
      else c # title_from False cs)"

definition replace_underscores :: "string \<Rightarrow> string" where
  "replace_underscores s0 = map (\<lambda>c. if c = CHR ''_'' then CHR '' '' else c) s0"

text \<open>\<open>v.replace('_', ' ').title()\<close> and \<open>v.title()\<close>: only a string has the methods.\<close>

fun replace_title :: "json \<Rightarrow> exn + string" where
  "replace_title (JStr s0) = Inr (title_from False (replace_underscores s0))"
| "replace_title v = Inl (AttributeError (type_name v) ''replace'')"

fun str_title :: "json \<Rightarrow> exn + string" where
  "str_title (JStr s0) = Inr (title_from False s0)"
| "str_title v = Inl (AttributeError (type_name v) ''title'')"

definition is_space :: "char \<Rightarrow> bool" where
  "is_space c =
     (c \<in> set [CHR 0x09, CHR 0x0A, CHR 0x0B, CHR 0x0C, CHR 0x0D,
                CHR 0x1C, CHR 0x1D, CHR 0x1E, CHR 0x1F, CHR 0x20])"

text \<open>\<open>str.strip\<close>, on the white space of ASCII (strings are byte lists).\<close>

definition strip :: "string \<Rightarrow> string" where
  "strip s0 = rev (dropWhile is_space (rev (dropWhile is_space s0)))"

definition format_notification_message ::
  "'w api \<Rightarrow> string \<Rightarrow> dict \<Rightarrow> dict \<Rightarrow> int \<Rightarrow> exn + string" where
  "format_notification_message a alert_type resource_info result now =
     (let status_emoji =
            (if get_or result ''status'' JNull = JStr ''success''
             then [CHR 0xE2, CHR 0x9C, CHR 0x85] else [CHR 0xE2, CHR 0x9D, CHR 0x8C])
      in case replace_title (get_or result ''action'' (JStr ''None'')) of
           Inl e \<Rightarrow> Inl e
         | Inr action_text \<Rightarrow>
            (case str_title (get_or result ''status'' (JStr ''Unknown'')) of
               Inl e \<Rightarrow> Inl e
             | Inr status_text \<Rightarrow>
                 Inr (strip
                   ([CHR 0x0A] @ status_emoji @ '' **AutoHeal Action Report**'' @ [CHR 0x0A, CHR 0x0A]
                    @ ''**Alert Type:** '' @ title_from False (replace_underscores alert_type)
                    @ [CHR 0x0A]
                    @ ''**Resource:** '' @ py_str a (get_or resource_info ''name'' (JStr ''Unknown''))
                    @ '' ('' @ py_str a (get_or resource_info ''type'' (JStr ''Unknown'')) @ '')''
                    @ [CHR 0x0A]
                    @ ''**Action Taken:** '' @ action_text @ [CHR 0x0A]
                    @ ''**Status:** '' @ status_text @ [CHR 0x0A]
                    @ ''**Timestamp:** '' @ strftime a now @ [CHR 0x0A, CHR 0x0A]
                    @ ''**Details:** ''
                    @ py_str a (get_or result ''message''
                                 (get_or result ''error'' (JStr ''No additional details'')))
                    @ [CHR 0x0A] @ ''        ''))))"

text \<open>
  The sinks return the new state only: each catches every exception its call raises
  and logs it.
\<close>

definition log_healing_action :: "'w api \<Rightarrow> string \<Rightarrow> dict \<Rightarrow> dict \<Rightarrow> 'w state \<Rightarrow> 'w state" where
  "log_healing_action a alert_type resource_info result s =
     (let log_entry = JDict
            [(''timestamp'', JStr (isoformat a (clock s))),
             (''alert_type'', JStr alert_type),
             (''resource'', JDict resource_info),
             (''action_result'', JDict result),
             (''severity'', JStr (if get_or result ''status'' JNull = JStr ''success''
                                  then ''INFO'' else ''ERROR''))]
      in case invoke (LoggerInfo log_entry) (logger_info_json a log_entry) s of
           (Some e, s1) \<Rightarrow> s1
         | (None, s1) \<Rightarrow> s1)"

definition slack_payload :: "string \<Rightarrow> json" where
  "slack_payload message =
     JDict [(''text'', JStr ''AutoHeal-GCP Alert''),
            (''attachments'', JList [JDict [(''color'', JStr ''good''),
                                            (''text'', JStr message),
                                            (''mrkdwn_in'', JList [JStr ''text''])]])]"

definition send_slack_notification :: "'w api \<Rightarrow> config \<Rightarrow> string \<Rightarrow> 'w state \<Rightarrow> 'w state" where
  "send_slack_notification a cfg message s =
     (case invoke (HttpPost (SLACK_WEBHOOK_URL cfg) [] (slack_payload message))
             (requests_post a (SLACK_WEBHOOK_URL cfg) [] (slack_payload message)) s of
        (Some e, s1) \<Rightarrow> s1
      | (None, s1) \<Rightarrow> s1)"

definition email_headers :: "config \<Rightarrow> (string \<times> string) list" where
  "email_headers cfg =
     [(''Authorization'', ''Bearer '' @ str_opt (SENDGRID_API_KEY cfg)),
      (''Content-Type'', ''application/json'')]"

definition email_payload :: "config \<Rightarrow> string \<Rightarrow> string \<Rightarrow> json" where
  "email_payload cfg message alert_type =
     JDict [(''personalizations'',
               JList [JDict [(''to'', JList [JDict [(''email'', JStr (NOTIFICATION_EMAIL cfg))]]),
                             (''subject'', JStr (''AutoHeal-GCP Alert: ''
                                @ title_from False (replace_underscores alert_type)))]]),
            (''from'', JDict [(''email'', JStr (SENDGRID_SENDER_EMAIL cfg))]),
            (''content'', JList [JDict [(''type'', JStr ''text/plain''),
                                        (''value'', JStr message)]])]"

definition send_email_notification ::
  "'w api \<Rightarrow> config \<Rightarrow> string \<Rightarrow> string \<Rightarrow> 'w state \<Rightarrow> 'w state" where
  "send_email_notification a cfg message alert_type s =
     (if \<not> truthy_opt (SENDGRID_API_KEY cfg) \<or> NOTIFICATION_EMAIL cfg = [] then s
      else
        (case invoke (HttpPost (Some ''https://api.sendgrid.com/v3/mail/send'') (email_headers cfg)
                        (email_payload cfg message alert_type))
                (requests_post a (Some ''https://api.sendgrid.com/v3/mail/send'') (email_headers cfg)
                   (email_payload cfg message alert_type)) s of
           (Some e, s1) \<Rightarrow> s1
         | (None, s1) \<Rightarrow> s1))"

definition send_notification ::
  "'w api \<Rightarrow> config \<Rightarrow> string \<Rightarrow> dict \<Rightarrow> dict \<Rightarrow> 'w state \<Rightarrow> 'w state" where
  "send_notification a cfg alert_type resource_info result s =
     (case format_notification_message a alert_type resource_info result (clock s) of
        Inl e \<Rightarrow> s
      | Inr message \<Rightarrow>
         (let s1 = (if truthy_opt (SLACK_WEBHOOK_URL cfg)
                    then send_slack_notification a cfg message s else s)
          in if truthy_opt (SENDGRID_API_KEY cfg) \<and> NOTIFICATION_EMAIL cfg \<noteq> []
             then send_email_notification a cfg message alert_type s1 else s1))"

section \<open>Processing an alert\<close>

definition error_result :: "'w api \<Rightarrow> exn \<Rightarrow> 'w state \<Rightarrow> dict" where
  "error_result a e s =
     [(''status'', JStr ''error''), (''error'', JStr (str_exn e)),
      (''timestamp'', JStr (isoformat a (clock s)))]"

definition process_alert :: "'w api \<Rightarrow> config \<Rightarrow> json \<Rightarrow> 'w state \<Rightarrow> dict \<times> 'w state" where
  "process_alert a cfg alert_data s =
     (case classify_alert alert_data of
        Inl e \<Rightarrow> (error_result a e s, s)
      | Inr alert_type \<Rightarrow>
         (case extract_resource_info alert_data of
            Inl e \<Rightarrow> (error_result a e s, s)
          | Inr resource_info \<Rightarrow>
             (case execute_healing_action a cfg alert_type resource_info alert_data s of
                (result, s1) \<Rightarrow>
                  (let s2 = log_healing_action a alert_type resource_info result s1;
                       s3 = send_notification a cfg alert_type resource_info result s2
                   in ([(''status'', JStr ''success''),
                        (''alert_type'', JStr alert_type),
                        (''resource'', JDict resource_info),
                        (''action_taken'', get_or result ''action'' (JStr ''none'')),
                        (''timestamp'', JStr (isoformat a (clock s3)))], s3)))))"

section \<open>Notions used to state the properties\<close>

text \<open>
  A case-insensitive substring match, in the specification's words: some contiguous
  part of the text equals the (lower-case) pattern up to the case of its letters.
\<close>

definition ci_contains :: "string \<Rightarrow> string \<Rightarrow> bool" where
  "ci_contains pat txt = (\<exists>ps mid ss. txt = ps @ mid @ ss \<and> map ascii_lower mid = pat)"

text \<open>
  The payloads on which classification does not raise: a dictionary whose incident is
  absent or a dictionary, whose condition display name is absent or a string.
\<close>

definition well_formed_incident :: "json \<Rightarrow> bool" where
  "well_formed_incident alert_data =
     (case alert_data of
        JDict kv \<Rightarrow>
          (case map_of kv ''incident'' of
             None \<Rightarrow> True
           | Some (JDict ikv) \<Rightarrow>
               (case map_of ikv ''condition_display_name'' of
                  None \<Rightarrow> True
                | Some (JStr n) \<Rightarrow> True
                | Some v \<Rightarrow> False)
           | Some v \<Rightarrow> False)
      | v \<Rightarrow> False)"

text \<open>
  The payloads on which resource extraction does not raise: a dictionary whose incident,
  the incident's resource and the resource's labels are each absent or a dictionary.
\<close>

definition well_formed_resource :: "json \<Rightarrow> bool" where
  "well_formed_resource alert_data =
     (case alert_data of
        JDict kv \<Rightarrow>
          (case get_or kv ''incident'' (JDict []) of
             JDict ikv \<Rightarrow>
               (case get_or ikv ''resource'' (JDict []) of
                  JDict rkv \<Rightarrow>
                    (case get_or rkv ''labels'' (JDict []) of
                       JDict lkv \<Rightarrow> True
                     | v \<Rightarrow> False)
                | v \<Rightarrow> False)
           | v \<Rightarrow> False)
      | v \<Rightarrow> False)"


text \<open>Invoking the scale action \<open>k\<close> times in a row, collecting the outcomes.\<close>

fun repeat_scale :: "'w api \<Rightarrow> config \<Rightarrow> json \<Rightarrow> nat \<Rightarrow> 'w state \<Rightarrow> dict list \<times> 'w state" where
  "repeat_scale a cfg service_name 0 s = ([], s)"
| "repeat_scale a cfg service_name (Suc k) s =
     (case scale_cloud_run_service a cfg service_name s of
        (r, s1) \<Rightarrow>
          (case repeat_scale a cfg service_name k s1 of (rs, s2) \<Rightarrow> (r # rs, s2)))"

section \<open>An example environment\<close>

text \<open>
  A small world for concrete runs: the world is the scaling ceiling of the one service.
  A stop or start request takes a string as instance name (or none) and is rejected
  otherwise; an update request is built as the client library builds it. Stopping an
  instance succeeds; starting it succeeds or raises, as \<open>start_ok\<close> says; the log and
  notification sinks succeed or raise, as \<open>sinks_ok\<close> says.
\<close>

definition example_instance_request :: "string option \<Rightarrow> string \<Rightarrow> json \<Rightarrow> exn + instance_request" where
  "example_instance_request project zone instance_name =
     (case instance_name of
        JStr i \<Rightarrow> Inr \<lparr>rq_project = project, rq_zone = zone, rq_instance = Some i\<rparr>
      | JNull \<Rightarrow> Inr \<lparr>rq_project = project, rq_zone = zone, rq_instance = None\<rparr>
      | v \<Rightarrow> Inl (TypeError ''bad argument type for built-in operation''))"

definition example_operation :: "nat \<Rightarrow> operation" where
  "example_operation i = \<lparr>op_id = i, op_name = Some ''operation-1'', op_has_result = True\<rparr>"

definition example_service :: "string \<Rightarrow> int \<Rightarrow> service" where
  "example_service path max_instances =
     \<lparr>name = path,
      template = \<lparr>containers = [\<lparr>image = ''gcr.io/demo/api'', env = []\<rparr>],
                  max_instance_count = max_instances\<rparr>\<rparr>"

definition example_api :: "bool \<Rightarrow> bool \<Rightarrow> int api" where
  "example_api start_ok sinks_ok =
     \<lparr>stop_instance_request = example_instance_request,
      start_instance_request = example_instance_request,
      update_service_request = library_update_service_request,
      client_stop = (\<lambda>request w. (Inr (example_operation 101), w)),
      client_start = (\<lambda>request w.
         (if start_ok then Inr (example_operation 102) else Inl (Error ''quota exceeded''), w)),
      client_has_wait = True,
      client_wait = (\<lambda>n project zone w. (None, w)),
      operation_result = (\<lambda>operation timeout w. (None, w)),
      get_service = (\<lambda>path w. (Inr (example_service path w), w)),
      update_service = (\<lambda>request w.
         (Inr (example_operation 103), max_instance_count (template (req_service request)))),
      requests_post = (\<lambda>url headers payload w.
         (if sinks_ok then None else Some (Error ''503 Server Error''), w)),
      logger_info_json = (\<lambda>entry w.
         (if sinks_ok then None else Some (Error ''not JSON serializable''), w)),
      isoformat = (\<lambda>now. ''2024-01-01T00:00:00''),
      strftime = (\<lambda>now. ''2024-01-01 00:00:00 UTC''),
      str_other = (\<lambda>v. ''?'')\<rparr>"

definition example_config :: config where
  "example_config =
     \<lparr>PROJECT_ID = Some ''demo'', ZONE = ''us-central1-a'', REGION = ''us-central1'',
      SENDGRID_API_KEY = None, SLACK_WEBHOOK_URL = Some ''https://hooks.example/T0'',
      NOTIFICATION_EMAIL = ''admin@example.com'',
      SENDGRID_SENDER_EMAIL = ''autoheal@your-domain.com''\<rparr>"

definition example_request :: instance_request where
  "example_request =
     \<lparr>rq_project = Some ''demo'', rq_zone = ''us-central1-a'', rq_instance = Some ''web-1''\<rparr>"

text \<open>The update request that restarting the example service builds, at the example clock.\<close>

definition example_restart_request :: "int \<Rightarrow> update_service_request" where
  "example_restart_request max_instances =
     \<lparr>req_service =
        \<lparr>name = ''projects/demo/locations/us-central1/services/api-svc'',
         template =
           \<lparr>containers =
              [\<lparr>image = ''gcr.io/demo/api'',
                env = [\<lparr>ev_name = ''RESTART_TIMESTAMP'', ev_value = ''2024-01-01T00:00:00''\<rparr>]\<rparr>],
            max_instance_count = max_instances\<rparr>\<rparr>,
      update_mask = [''template'']\<rparr>"

definition example_state :: "int \<Rightarrow> int state" where
  "example_state max_instances = \<lparr>world = max_instances, calls = [], clock = 0\<rparr>"

definition example_alert :: "string \<Rightarrow> string \<Rightarrow> string \<Rightarrow> string \<Rightarrow> json" where
  "example_alert condition resource_type label resource_name =
     JDict [(''incident'',
        JDict [(''condition_display_name'', JStr condition),
               (''resource'', JDict [(''type'', JStr resource_type),
                                     (''labels'', JDict [(label, JStr resource_name)])])])]"

section \<open>Classification\<close>

subsection \<open>The substring test\<close>

lemma str_contains_sublist: "str_contains n h = sublist n h"
  by (induction h) (simp_all add: sublist_Cons_right)

lemma sublist_map_iff:
  "sublist pat (map f txt) = (\<exists>ps mid ss. txt = ps @ mid @ ss \<and> map f mid = pat)"
proof
  assume "sublist pat (map f txt)"
  then obtain ps' ss' where "map f txt = ps' @ pat @ ss'"
    by (auto simp: sublist_def)
  then have "\<exists>us vs. txt = us @ vs \<and> ps' = map f us \<and> pat @ ss' = map f vs"
    by (rule map_eq_append_conv [THEN iffD1])
  then obtain us vs where u: "txt = us @ vs" and v: "map f vs = pat @ ss'"
    by metis
  from v have "\<exists>mid ss. vs = mid @ ss \<and> pat = map f mid \<and> ss' = map f ss"
    by (rule map_eq_append_conv [THEN iffD1])
  then obtain mid ss where "vs = mid @ ss" and "map f mid = pat"
    by metis
  with u show "\<exists>ps mid ss. txt = ps @ mid @ ss \<and> map f mid = pat"
    by blast
next
  assume "\<exists>ps mid ss. txt = ps @ mid @ ss \<and> map f mid = pat"
  then obtain ps mid ss where "txt = ps @ mid @ ss" and "map f mid = pat"
    by blast
  then have "map f txt = map f ps @ pat @ map f ss"
    by simp
  then show "sublist pat (map f txt)"
    unfolding sublist_def by blast
qed

lemma str_contains_lower: "str_contains pat (map ascii_lower txt) = ci_contains pat txt"
  by (simp add: str_contains_sublist sublist_map_iff ci_contains_def)

text \<open>
  Claim C2. For an alert whose incident carries a string as condition display name,
  \<open>classify_alert\<close> matches the name case-insensitively against \<open>cpu\<close>, then
  \<open>error\<close> or \<open>5xx\<close>, then \<open>memory\<close>, then \<open>uptime\<close> or \<open>availability\<close>, and returns the
  category of the first match, \<open>unknown\<close> when none matches. In particular a name that
  contains \<open>cpu\<close> in any case yields \<open>high_cpu\<close>, whatever else it contains.
\<close>

theorem classify_alert_priority_order:
  assumes "dict_get alert_data ''incident'' (JDict []) = Inr incident"
    and "dict_get incident ''condition_display_name'' (JStr '''') = Inr (JStr condition)"
  shows "classify_alert alert_data =
           Inr (if ci_contains ''cpu'' condition then ''high_cpu''
                else if ci_contains ''error'' condition \<or> ci_contains ''5xx'' condition
                  then ''error_rate_spike''
                else if ci_contains ''memory'' condition then ''memory_leak''
                else if ci_contains ''uptime'' condition \<or> ci_contains ''availability'' condition
                  then ''service_down''
                else ''unknown'')
         \<and> (ci_contains ''cpu'' condition \<longrightarrow> classify_alert alert_data = Inr ''high_cpu'')"
  using assms by (simp add: classify_alert_def str_contains_lower)

theorem classify_alert_priority_order_witness:
  "dict_get (example_alert ''Memory errors on CPU pool'' ''gce_instance'' ''instance_name'' ''web-1'')
      ''incident'' (JDict [])
     = Inr (JDict [(''condition_display_name'', JStr ''Memory errors on CPU pool''),
                   (''resource'', JDict [(''type'', JStr ''gce_instance''),
                                         (''labels'', JDict [(''instance_name'', JStr ''web-1'')])])])
   \<and> ci_contains ''cpu'' ''Memory errors on CPU pool''
   \<and> ci_contains ''error'' ''Memory errors on CPU pool''
   \<and> ci_contains ''memory'' ''Memory errors on CPU pool''
   \<and> classify_alert (example_alert ''Memory errors on CPU pool'' ''gce_instance'' ''instance_name'' ''web-1'')
       = Inr ''high_cpu''"
proof -
  let ?inc = "JDict [(''condition_display_name'', JStr ''Memory errors on CPU pool''),
                   (''resource'', JDict [(''type'', JStr ''gce_instance''),
                                         (''labels'', JDict [(''instance_name'', JStr ''web-1'')])])]"
  have h1: "dict_get (example_alert ''Memory errors on CPU pool'' ''gce_instance'' ''instance_name'' ''web-1'')
      ''incident'' (JDict []) = Inr ?inc"
    by (simp add: example_alert_def get_or_def)
  have h2: "dict_get ?inc ''condition_display_name'' (JStr '''') = Inr (JStr ''Memory errors on CPU pool'')"
    by (simp add: get_or_def)
  have c: "ci_contains ''cpu'' ''Memory errors on CPU pool''"
    unfolding str_contains_lower [symmetric] by (simp add: ascii_lower_def)
  have e: "ci_contains ''error'' ''Memory errors on CPU pool''"
    unfolding str_contains_lower [symmetric] by (simp add: ascii_lower_def)
  have m: "ci_contains ''memory'' ''Memory errors on CPU pool''"
    unfolding str_contains_lower [symmetric] by (simp add: ascii_lower_def)
  from classify_alert_priority_order [OF h1 h2] c e m h1 show ?thesis by simp
qed

text \<open>
  Claim C7, as stated, fails: a condition display name that is present but not a string
  (here \<open>null\<close>) makes \<open>classify_alert\<close> raise \<open>AttributeError\<close>.
\<close>

theorem classify_alert_raises_counterexample:
  "classify_alert (JDict [(''incident'', JDict [(''condition_display_name'', JNull)])])
     = Inl (AttributeError ''NoneType'' ''lower'')"
  by (simp add: classify_alert_def get_or_def)

text \<open>
  Claim C7, amended. \<open>classify_alert\<close> returns a category exactly for the payloads that
  are dictionaries whose incident is absent or a dictionary and whose condition display
  name is absent or a string; on every other payload it raises. An absent incident and
  an absent condition display name both yield \<open>unknown\<close>.
\<close>

theorem classify_alert_total_on_well_formed:
  "((\<exists>t. classify_alert alert_data = Inr t) = well_formed_incident alert_data)
   \<and> (alert_data = JDict kv \<and> map_of kv ''incident'' = None
        \<longrightarrow> classify_alert alert_data = Inr ''unknown'')
   \<and> (alert_data = JDict kv \<and> map_of kv ''incident'' = Some (JDict ikv)
        \<and> map_of ikv ''condition_display_name'' = None
        \<longrightarrow> classify_alert alert_data = Inr ''unknown'')"
proof (intro conjI impI)
  show "(\<exists>t. classify_alert alert_data = Inr t) = well_formed_incident alert_data"
    by (auto simp: classify_alert_def well_formed_incident_def get_or_def
          split: json.splits option.splits sum.splits)
next
  assume "alert_data = JDict kv \<and> map_of kv ''incident'' = None"
  then show "classify_alert alert_data = Inr ''unknown''"
    by (simp add: classify_alert_def get_or_def)
next
  assume "alert_data = JDict kv \<and> map_of kv ''incident'' = Some (JDict ikv)
        \<and> map_of ikv ''condition_display_name'' = None"
  then show "classify_alert alert_data = Inr ''unknown''"
    by (simp add: classify_alert_def get_or_def)
qed

theorem classify_alert_total_on_well_formed_witness:
  "well_formed_incident (JDict [(''incident'', JDict [(''state'', JStr ''open'')])])
   \<and> map_of [(''state'', JStr ''open'')] ''condition_display_name'' = None
   \<and> classify_alert (JDict [(''incident'', JDict [(''state'', JStr ''open'')])]) = Inr ''unknown''
   \<and> map_of ([] :: dict) ''incident'' = None
   \<and> classify_alert (JDict []) = Inr ''unknown''"
  using classify_alert_total_on_well_formed
          [of "JDict [(''incident'', JDict [(''state'', JStr ''open'')])]"
              "[(''incident'', JDict [(''state'', JStr ''open'')])]" "[(''state'', JStr ''open'')]"]
        classify_alert_total_on_well_formed [of "JDict []" "[]" "[]"]
  by (simp add: well_formed_incident_def)

section \<open>Resource extraction\<close>

text \<open>
  Claim C6, as stated, fails twice: a service-name label that is present but empty is
  returned as the name, and a resource that is not a dictionary makes
  \<open>extract_resource_info\<close> raise.
\<close>

theorem extract_resource_info_counterexample:
  "extract_resource_info (example_alert ''Uptime check failed'' ''cloud_run_revision'' ''service_name'' '''')
     = Inr [(''type'', JStr ''cloud_run_revision''),
            (''labels'', JDict [(''service_name'', JStr '''')]),
            (''name'', JStr '''')]
   \<and> extract_resource_info (JDict [(''incident'', JDict [(''resource'', JStr ''web-1'')])])
     = Inl (AttributeError ''str'' ''get'')"
  by (simp add: extract_resource_info_def example_alert_def get_or_def)

lemma dict_get_not_dict:
  "(\<nexists>kv. v = JDict kv) \<Longrightarrow> dict_get v k dflt = Inl (AttributeError (type_name v) ''get'')"
  by (cases v) simp_all

lemma extract_resource_info_returns:
  assumes "dict_get alert_data ''incident'' (JDict []) = Inr incident"
    and "dict_get incident ''resource'' (JDict []) = Inr (JDict rkv)"
    and "get_or rkv ''labels'' (JDict []) = JDict lkv"
  shows "extract_resource_info alert_data
            = Inr [(''type'', get_or rkv ''type'' (JStr ''unknown'')),
                   (''labels'', JDict lkv),
                   (''name'', if truthy (get_or lkv ''instance_name'' JNull)
                              then get_or lkv ''instance_name'' JNull
                              else get_or lkv ''service_name'' (JStr ''unknown''))]"
  using assms by (simp add: extract_resource_info_def)

lemma extract_resource_info_well_formed:
  assumes "well_formed_resource alert_data"
  shows "\<exists>r. extract_resource_info alert_data = Inr r"
proof -
  from assms obtain kv where d: "alert_data = JDict kv"
    by (cases alert_data) (simp_all add: well_formed_resource_def)
  with assms obtain ikv where i: "get_or kv ''incident'' (JDict []) = JDict ikv"
    by (cases "get_or kv ''incident'' (JDict [])") (simp_all add: well_formed_resource_def)
  with d assms obtain rkv where r: "get_or ikv ''resource'' (JDict []) = JDict rkv"
    by (cases "get_or ikv ''resource'' (JDict [])") (simp_all add: well_formed_resource_def)
  with d i assms obtain lkv where l: "get_or rkv ''labels'' (JDict []) = JDict lkv"
    by (cases "get_or rkv ''labels'' (JDict [])") (simp_all add: well_formed_resource_def)
  have "dict_get alert_data ''incident'' (JDict []) = Inr (JDict ikv)"
    using d i by simp
  moreover have "dict_get (JDict ikv) ''resource'' (JDict []) = Inr (JDict rkv)"
    using r by simp
  ultimately show ?thesis
    using l by (simp add: extract_resource_info_returns)
qed

lemma extract_resource_info_malformed:
  assumes "\<not> well_formed_resource alert_data"
  shows "\<exists>t. extract_resource_info alert_data = Inl (AttributeError t ''get'')"
proof (cases "\<exists>kv. alert_data = JDict kv")
  case False
  then show ?thesis
    by (simp add: extract_resource_info_def dict_get_not_dict)
next
  case True
  then obtain kv where d: "alert_data = JDict kv" by blast
  show ?thesis
  proof (cases "\<exists>ikv. get_or kv ''incident'' (JDict []) = JDict ikv")
    case False
    with d show ?thesis
      by (simp add: extract_resource_info_def dict_get_not_dict)
  next
    case True
    then obtain ikv where i: "get_or kv ''incident'' (JDict []) = JDict ikv" by blast
    show ?thesis
    proof (cases "\<exists>rkv. get_or ikv ''resource'' (JDict []) = JDict rkv")
      case False
      with d i show ?thesis
        by (simp add: extract_resource_info_def dict_get_not_dict)
    next
      case True
      then obtain rkv where r: "get_or ikv ''resource'' (JDict []) = JDict rkv" by blast
      from assms d i r have "\<nexists>lkv. get_or rkv ''labels'' (JDict []) = JDict lkv"
        by (auto simp: well_formed_resource_def)
      with d i r show ?thesis
        by (simp add: extract_resource_info_def dict_get_not_dict)
    qed
  qed
qed

text \<open>
  Claim C6, amended. \<open>extract_resource_info\<close> returns a descriptor exactly when the alert
  is a dictionary whose incident, resource and labels are each absent or a dictionary;
  on every other payload it raises \<open>AttributeError\<close>. The descriptor has the three keys
  \<open>type\<close>, \<open>labels\<close> and \<open>name\<close>: the type defaults to \<open>unknown\<close>, the labels to the empty
  dictionary, and the name is the instance-name label when that is truthy, else the
  service-name label, else \<open>unknown\<close>. The name is truthy (neither \<open>None\<close> nor empty)
  exactly when the instance-name label is truthy or the service-name label is absent or
  truthy.
\<close>

theorem extract_resource_info_defaults:
  "((\<exists>r. extract_resource_info alert_data = Inr r) = well_formed_resource alert_data)
   \<and> (\<not> well_formed_resource alert_data \<longrightarrow>
        (\<exists>t. extract_resource_info alert_data = Inl (AttributeError t ''get'')))
   \<and> (dict_get alert_data ''incident'' (JDict []) = Inr incident
        \<and> dict_get incident ''resource'' (JDict []) = Inr (JDict rkv)
        \<and> get_or rkv ''labels'' (JDict []) = JDict lkv \<longrightarrow>
        (\<exists>nm. extract_resource_info alert_data
            = Inr [(''type'', get_or rkv ''type'' (JStr ''unknown'')),
                   (''labels'', JDict lkv), (''name'', nm)]
          \<and> nm = (if truthy (get_or lkv ''instance_name'' JNull)
                   then get_or lkv ''instance_name'' JNull
                   else get_or lkv ''service_name'' (JStr ''unknown''))
          \<and> truthy nm = (truthy (get_or lkv ''instance_name'' JNull)
                          \<or> truthy (get_or lkv ''service_name'' (JStr ''unknown'')))))"
proof (intro conjI impI)
  show "(\<exists>r. extract_resource_info alert_data = Inr r) = well_formed_resource alert_data"
  proof
    assume returns: "\<exists>r. extract_resource_info alert_data = Inr r"
    show "well_formed_resource alert_data"
    proof (rule ccontr)
      assume "\<not> well_formed_resource alert_data"
      from extract_resource_info_malformed [OF this] returns show False
        by auto
    qed
  next
    assume "well_formed_resource alert_data"
    then show "\<exists>r. extract_resource_info alert_data = Inr r"
      by (rule extract_resource_info_well_formed)
  qed
next
  assume "\<not> well_formed_resource alert_data"
  then show "\<exists>t. extract_resource_info alert_data = Inl (AttributeError t ''get'')"
    by (rule extract_resource_info_malformed)
next
  assume "dict_get alert_data ''incident'' (JDict []) = Inr incident
        \<and> dict_get incident ''resource'' (JDict []) = Inr (JDict rkv)
        \<and> get_or rkv ''labels'' (JDict []) = JDict lkv"
  then show "\<exists>nm. extract_resource_info alert_data
            = Inr [(''type'', get_or rkv ''type'' (JStr ''unknown'')),
                   (''labels'', JDict lkv), (''name'', nm)]
          \<and> nm = (if truthy (get_or lkv ''instance_name'' JNull)
                   then get_or lkv ''instance_name'' JNull
                   else get_or lkv ''service_name'' (JStr ''unknown''))
          \<and> truthy nm = (truthy (get_or lkv ''instance_name'' JNull)
                          \<or> truthy (get_or lkv ''service_name'' (JStr ''unknown'')))"
    by (simp add: extract_resource_info_returns)
qed

theorem extract_resource_info_defaults_witness:
  "dict_get (JDict [(''incident'', JDict [(''resource'', JDict [])])]) ''incident'' (JDict [])
     = Inr (JDict [(''resource'', JDict [])])
   \<and> dict_get (JDict [(''resource'', JDict [])]) ''resource'' (JDict []) = Inr (JDict [])
   \<and> get_or [] ''labels'' (JDict []) = JDict []
   \<and> well_formed_resource (JDict [(''incident'', JDict [(''resource'', JDict [])])])
   \<and> extract_resource_info (JDict [(''incident'', JDict [(''resource'', JDict [])])])
       = Inr [(''type'', JStr ''unknown''), (''labels'', JDict []), (''name'', JStr ''unknown'')]
   \<and> \<not> well_formed_resource
         (JDict [(''incident'', JDict [(''resource'', JDict [(''labels'', JList [])])])])
   \<and> (\<exists>t. extract_resource_info
         (JDict [(''incident'', JDict [(''resource'', JDict [(''labels'', JList [])])])])
       = Inl (AttributeError t ''get''))"
proof -
  have h1: "dict_get (JDict [(''incident'', JDict [(''resource'', JDict [])])]) ''incident'' (JDict [])
     = Inr (JDict [(''resource'', JDict [])])"
    by (simp add: get_or_def)
  have h2: "dict_get (JDict [(''resource'', JDict [])]) ''resource'' (JDict []) = Inr (JDict [])"
    by (simp add: get_or_def)
  have h3: "get_or [] ''labels'' (JDict []) = JDict []"
    by (simp add: get_or_def)
  have wf: "well_formed_resource (JDict [(''incident'', JDict [(''resource'', JDict [])])])"
    by (simp add: well_formed_resource_def get_or_def)
  have nwf: "\<not> well_formed_resource
         (JDict [(''incident'', JDict [(''resource'', JDict [(''labels'', JList [])])])])"
    by (simp add: well_formed_resource_def get_or_def)
  from extract_resource_info_defaults
         [of "JDict [(''incident'', JDict [(''resource'', JDict [])])]"
             "JDict [(''resource'', JDict [])]" "[]" "[]"] h1 h2 h3
  have ret: "extract_resource_info (JDict [(''incident'', JDict [(''resource'', JDict [])])])
       = Inr [(''type'', JStr ''unknown''), (''labels'', JDict []), (''name'', JStr ''unknown'')]"
    by (simp add: get_or_def)
  from extract_resource_info_defaults
         [of "JDict [(''incident'', JDict [(''resource'', JDict [(''labels'', JList [])])])]"] nwf
  have "\<exists>t. extract_resource_info
         (JDict [(''incident'', JDict [(''resource'', JDict [(''labels'', JList [])])])])
       = Inl (AttributeError t ''get'')"
    by blast
  with h1 h2 h3 wf nwf ret show ?thesis
    by blast
qed

section \<open>Decisions that only alert\<close>

lemma recovery_actions_unknown: "recovery_actions ''unknown'' = None"
  by (simp add: recovery_actions_def)

text \<open>
  Claim C5, as stated, fails: the outcome for an alert of unknown type has no status
  field at all, so its status is not \<open>skipped\<close>.
\<close>

theorem alert_only_status_counterexample:
  "map_of (fst (execute_healing_action (example_api True True) example_config ''unknown''
                  [(''type'', JStr ''gce_instance''), (''labels'', JDict []), (''name'', JStr ''web-1'')]
                  (JDict []) (example_state 10))) ''status'' = None
   \<and> \<not> status_is (fst (execute_healing_action (example_api True True) example_config ''unknown''
                  [(''type'', JStr ''gce_instance''), (''labels'', JDict []), (''name'', JStr ''web-1'')]
                  (JDict []) (example_state 10))) ''skipped''"
  by (simp add: execute_healing_action_def recovery_actions_def handle_unknown_alert_def status_is_def)

lemma handle_high_cpu_unsupported:
  assumes "get_or resource_info ''type'' JNull \<noteq> JStr ''gce_instance''"
    and "get_or resource_info ''type'' JNull \<noteq> JStr ''cloud_run_revision''"
  shows "handle_high_cpu a cfg resource_info alert_data s
           = (alert_only_unsupported a (get_or resource_info ''type'' JNull), s)"
  using assms by (simp add: handle_high_cpu_def)

lemma handle_service_down_unsupported:
  assumes "get_or resource_info ''type'' JNull \<noteq> JStr ''gce_instance''"
    and "get_or resource_info ''type'' JNull \<noteq> JStr ''cloud_run_revision''"
  shows "handle_service_down a cfg resource_info alert_data s
           = (alert_only_unsupported a (get_or resource_info ''type'' JNull), s)"
  using assms by (simp add: handle_service_down_def)

lemma handle_memory_leak_unsupported:
  assumes "get_or resource_info ''type'' JNull \<noteq> JStr ''gce_instance''"
    and "get_or resource_info ''type'' JNull \<noteq> JStr ''cloud_run_revision''"
  shows "handle_memory_leak a cfg resource_info alert_data s
           = (alert_only_unsupported a (get_or resource_info ''type'' JNull), s)"
  using assms by (simp add: handle_memory_leak_def handle_service_down_unsupported)

lemma handle_error_rate_spike_unsupported:
  assumes "get_or resource_info ''type'' JNull \<noteq> JStr ''gce_instance''"
    and "get_or resource_info ''type'' JNull \<noteq> JStr ''cloud_run_revision''"
  shows "handle_error_rate_spike a cfg resource_info alert_data s
           = (alert_only_unsupported a (get_or resource_info ''type'' JNull), s)"
  using assms by (simp add: handle_error_rate_spike_def handle_service_down_unsupported)

lemma recovery_actions_cases:
  "recovery_actions alert_type = (None :: 'w handler option)
   \<or> recovery_actions alert_type = Some (handle_high_cpu :: 'w handler)
   \<or> recovery_actions alert_type = Some handle_service_down
   \<or> recovery_actions alert_type = Some handle_memory_leak
   \<or> recovery_actions alert_type = Some handle_error_rate_spike"
  by (simp add: recovery_actions_def)

lemma execute_unknown:
  "recovery_actions alert_type = (None :: 'w handler option) \<Longrightarrow>
   execute_healing_action (a :: 'w api) cfg alert_type resource_info alert_data s
     = (handle_unknown_alert resource_info alert_data, s)"
  by (simp add: execute_healing_action_def)

lemma execute_unsupported:
  assumes "recovery_actions alert_type \<noteq> (None :: 'w handler option)"
    and "get_or resource_info ''type'' JNull \<noteq> JStr ''gce_instance''"
    and "get_or resource_info ''type'' JNull \<noteq> JStr ''cloud_run_revision''"
  shows "execute_healing_action (a :: 'w api) cfg alert_type resource_info alert_data s
           = (alert_only_unsupported a (get_or resource_info ''type'' JNull), s)"
proof -
  from recovery_actions_cases [of alert_type, where ?'w = 'w] assms(1)
  consider "recovery_actions alert_type = Some (handle_high_cpu :: 'w handler)"
    | "recovery_actions alert_type = Some (handle_service_down :: 'w handler)"
    | "recovery_actions alert_type = Some (handle_memory_leak :: 'w handler)"
    | "recovery_actions alert_type = Some (handle_error_rate_spike :: 'w handler)"
    by blast
  then show ?thesis
  proof cases
    case 1
    then show ?thesis
      by (simp add: execute_healing_action_def handle_high_cpu_unsupported [OF assms(2,3)])
  next
    case 2
    then show ?thesis
      by (simp add: execute_healing_action_def handle_service_down_unsupported [OF assms(2,3)])
  next
    case 3
    then show ?thesis
      by (simp add: execute_healing_action_def handle_memory_leak_unsupported [OF assms(2,3)])
  next
    case 4
    then show ?thesis
      by (simp add: execute_healing_action_def handle_error_rate_spike_unsupported [OF assms(2,3)])
  qed
qed

text \<open>
  Claim C5, amended. For an alert classified \<open>unknown\<close>, and for an alert of any type
  whose resource type is neither \<open>gce_instance\<close> nor \<open>cloud_run_revision\<close>, the engine
  issues no call and its outcome has action \<open>alert_only\<close>, carries a reason string and
  has no status field; in particular its status is not \<open>failed\<close>.
\<close>

theorem alert_only_outcome:
  assumes "execute_healing_action (a :: 'w api) cfg alert_type resource_info alert_data s = (r, s')"
    and "alert_type = ''unknown''
         \<or> (get_or resource_info ''type'' JNull \<noteq> JStr ''gce_instance''
            \<and> get_or resource_info ''type'' JNull \<noteq> JStr ''cloud_run_revision'')"
  shows "map_of r ''action'' = Some (JStr ''alert_only'')
         \<and> (\<exists>reason. map_of r ''reason'' = Some (JStr reason))
         \<and> map_of r ''status'' = None
         \<and> \<not> status_is r ''failed''
         \<and> s' = s"
proof -
  have "(r, s') = (handle_unknown_alert resource_info alert_data, s)
        \<or> (r, s') = (alert_only_unsupported a (get_or resource_info ''type'' JNull), s)"
  proof (cases "recovery_actions alert_type = (None :: 'w handler option)")
    case True
    with assms(1) show ?thesis by (simp add: execute_unknown)
  next
    case False
    with assms(2) have "get_or resource_info ''type'' JNull \<noteq> JStr ''gce_instance''"
      and "get_or resource_info ''type'' JNull \<noteq> JStr ''cloud_run_revision''"
      by (auto simp: recovery_actions_unknown)
    with False assms(1) show ?thesis by (simp add: execute_unsupported)
  qed
  then show ?thesis
    by (auto simp: handle_unknown_alert_def alert_only_unsupported_def status_is_def)
qed

theorem alert_only_outcome_witness:
  "execute_healing_action (example_api True True) example_config ''high_cpu''
      [(''type'', JStr ''pubsub_topic''), (''labels'', JDict []), (''name'', JStr ''unknown'')]
      (JDict []) (example_state 10)
    = ([(''action'', JStr ''alert_only''),
        (''reason'', JStr ''Unsupported resource type: pubsub_topic'')], example_state 10)
   \<and> get_or [(''type'', JStr ''pubsub_topic''), (''labels'', JDict []), (''name'', JStr ''unknown'')]
        ''type'' JNull \<noteq> JStr ''gce_instance''
   \<and> get_or [(''type'', JStr ''pubsub_topic''), (''labels'', JDict []), (''name'', JStr ''unknown'')]
        ''type'' JNull \<noteq> JStr ''cloud_run_revision''
   \<and> map_of [(''action'', JStr ''alert_only''),
        (''reason'', JStr ''Unsupported resource type: pubsub_topic'')] ''status'' = None"
proof -
  let ?ri = "[(''type'', JStr ''pubsub_topic''), (''labels'', JDict []), (''name'', JStr ''unknown'')]"
  have t1: "get_or ?ri ''type'' JNull \<noteq> JStr ''gce_instance''"
    and t2: "get_or ?ri ''type'' JNull \<noteq> JStr ''cloud_run_revision''"
    by (simp_all add: get_or_def)
  have run: "execute_healing_action (example_api True True) example_config ''high_cpu'' ?ri
      (JDict []) (example_state 10)
    = ([(''action'', JStr ''alert_only''),
        (''reason'', JStr ''Unsupported resource type: pubsub_topic'')], example_state 10)"
    by (simp add: execute_healing_action_def recovery_actions_def handle_high_cpu_def
          alert_only_unsupported_def get_or_def py_str_def)
  from alert_only_outcome [OF run disjI2 [OF conjI [OF t1 t2]]] run t1 t2
  show ?thesis by simp
qed

section \<open>The boundary of \<open>process_alert\<close>\<close>

lemma process_alert_classify_raises:
  "classify_alert d = Inl e \<Longrightarrow> process_alert a cfg d s = (error_result a e s, s)"
  by (simp add: process_alert_def)

lemma process_alert_extract_raises:
  "classify_alert d = Inr t \<Longrightarrow> extract_resource_info d = Inl e \<Longrightarrow>
   process_alert a cfg d s = (error_result a e s, s)"
  by (simp add: process_alert_def)

lemma process_alert_completes:
  assumes "classify_alert d = Inr t" and "extract_resource_info d = Inr ri"
    and "execute_healing_action a cfg t ri d s = (result, s1)"
  shows "process_alert a cfg d s =
     ([(''status'', JStr ''success''), (''alert_type'', JStr t), (''resource'', JDict ri),
       (''action_taken'', get_or result ''action'' (JStr ''none'')),
       (''timestamp'', JStr (isoformat a
          (clock (send_notification a cfg t ri result (log_healing_action a t ri result s1)))))],
      send_notification a cfg t ri result (log_healing_action a t ri result s1))"
  using assms by (simp add: process_alert_def Let_def)

text \<open>
  Claim C8. \<open>process_alert\<close> always returns a result. When classification or resource
  extraction raises, the state is untouched and the result is the dictionary with the
  keys \<open>status\<close> (\<open>error\<close>), \<open>error\<close> (the exception's message) and \<open>timestamp\<close>. Otherwise
  the result is the dictionary with the keys \<open>status\<close> (\<open>success\<close>), \<open>alert_type\<close>,
  \<open>resource\<close>, \<open>action_taken\<close> and \<open>timestamp\<close>. The actions and the sinks catch their own
  exceptions, so no other exception reaches the boundary.
\<close>

theorem process_alert_boundary:
  "(\<exists>e. (classify_alert d = Inl e
          \<or> ((\<exists>t. classify_alert d = Inr t) \<and> extract_resource_info d = Inl e))
        \<and> process_alert a cfg d s =
            ([(''status'', JStr ''error''), (''error'', JStr (str_exn e)),
              (''timestamp'', JStr (isoformat a (clock s)))], s))
   \<or> (\<exists>t ri result s1 s'.
        classify_alert d = Inr t \<and> extract_resource_info d = Inr ri
        \<and> execute_healing_action a cfg t ri d s = (result, s1)
        \<and> process_alert a cfg d s =
            ([(''status'', JStr ''success''), (''alert_type'', JStr t), (''resource'', JDict ri),
              (''action_taken'', get_or result ''action'' (JStr ''none'')),
              (''timestamp'', JStr (isoformat a (clock s')))], s'))"
proof (cases "classify_alert d")
  case (Inl e)
  then show ?thesis
    by (auto simp: process_alert_classify_raises error_result_def)
next
  case t: (Inr t)
  show ?thesis
  proof (cases "extract_resource_info d")
    case (Inl e)
    with t show ?thesis
      by (auto simp: process_alert_extract_raises error_result_def)
  next
    case (Inr ri)
    obtain result s1 where "execute_healing_action a cfg t ri d s = (result, s1)"
      by (cases "execute_healing_action a cfg t ri d s")
    from process_alert_completes [OF t Inr this] t Inr this show ?thesis
      by blast
  qed
qed

text \<open>
  Claim C10. When the pipeline completes and the remediation outcome has status
  \<open>failed\<close>, the result of \<open>process_alert\<close> still has status \<open>success\<close> and no \<open>error\<close> key;
  the failure shows only in the outcome, of which the result reports the action.
\<close>

theorem failed_action_reported_as_success:
  assumes "classify_alert d = Inr t" and "extract_resource_info d = Inr ri"
    and "execute_healing_action a cfg t ri d s = (result, s1)"
    and "status_is result ''failed''"
  shows "map_of (fst (process_alert a cfg d s)) ''status'' = Some (JStr ''success'')
         \<and> map_of (fst (process_alert a cfg d s)) ''action_taken''
             = Some (get_or result ''action'' (JStr ''none''))
         \<and> map_of (fst (process_alert a cfg d s)) ''error'' = None"
  by (simp add: process_alert_completes [OF assms(1,2,3)])


subsection \<open>A run in which the instance fails to start\<close>

lemmas example_defs =
  example_api_def example_config_def example_state_def example_alert_def
  example_operation_def example_service_def example_instance_request_def example_request_def

lemma example_vm_alert_classified:
  "classify_alert (example_alert ''CPU utilization above threshold'' ''gce_instance''
       ''instance_name'' ''web-1'') = Inr ''high_cpu''"
  by (simp add: classify_alert_def example_alert_def get_or_def ascii_lower_def)

lemma example_vm_alert_extracted:
  "extract_resource_info (example_alert ''CPU utilization above threshold'' ''gce_instance''
       ''instance_name'' ''web-1'')
     = Inr [(''type'', JStr ''gce_instance''),
            (''labels'', JDict [(''instance_name'', JStr ''web-1'')]),
            (''name'', JStr ''web-1'')]"
  by (simp add: extract_resource_info_def example_alert_def get_or_def)

lemma example_vm_restart_start_fails:
  "restart_vm_instance (example_api False ok) example_config (JStr ''web-1'') (example_state 10)
     = (vm_restart_failed (JStr ''web-1'') (Error ''quota exceeded''),
        \<lparr>world = 10,
         calls = [Stop example_request,
                  WaitZoneOperation ''operation-1'' ''demo'' ''us-central1-a'',
                  Start example_request],
         clock = 0\<rparr>)"
  by (simp add: restart_vm_instance_def wait_for_operation_def zone_wait_args_def invoke_def
        example_defs)

lemma example_vm_execute_start_fails:
  "execute_healing_action (example_api False ok) example_config ''high_cpu''
      [(''type'', JStr ''gce_instance''),
       (''labels'', JDict [(''instance_name'', JStr ''web-1'')]),
       (''name'', JStr ''web-1'')] d (example_state 10)
     = (vm_restart_failed (JStr ''web-1'') (Error ''quota exceeded''),
        \<lparr>world = 10,
         calls = [Stop example_request,
                  WaitZoneOperation ''operation-1'' ''demo'' ''us-central1-a'',
                  Start example_request],
         clock = 0\<rparr>)"
  by (simp add: execute_healing_action_def recovery_actions_def handle_high_cpu_def get_or_def
        example_vm_restart_start_fails)

theorem failed_action_reported_as_success_witness:
  "status_is (vm_restart_failed (JStr ''web-1'') (Error ''quota exceeded'')) ''failed''
   \<and> map_of (fst (process_alert (example_api False True) example_config
         (example_alert ''CPU utilization above threshold'' ''gce_instance''
            ''instance_name'' ''web-1'') (example_state 10))) ''status''
       = Some (JStr ''success'')
   \<and> map_of (fst (process_alert (example_api False True) example_config
         (example_alert ''CPU utilization above threshold'' ''gce_instance''
            ''instance_name'' ''web-1'') (example_state 10))) ''action_taken''
       = Some (JStr ''vm_restart'')"
proof -
  have f: "status_is (vm_restart_failed (JStr ''web-1'') (Error ''quota exceeded'')) ''failed''"
    by (simp add: status_is_def vm_restart_failed_def)
  from failed_action_reported_as_success
         [OF example_vm_alert_classified example_vm_alert_extracted
             example_vm_execute_start_fails f, of True] f
  show ?thesis
    by (simp add: vm_restart_failed_def get_or_def)
qed

section \<open>Log and notification sinks\<close>

lemma swallow: "(case p of (None, s1) \<Rightarrow> s1 | (Some e, s1) \<Rightarrow> s1) = snd p"
  by (simp split: prod.splits option.splits)

lemma snd_invoke: "snd (invoke c f s) = s\<lparr>world := snd (f (world s)), calls := calls s @ [c]\<rparr>"
  by (simp add: invoke_def split: prod.splits)

lemma log_healing_action_state:
  "log_healing_action a t ri r s =
     s\<lparr>world := snd (logger_info_json a (JDict
            [(''timestamp'', JStr (isoformat a (clock s))), (''alert_type'', JStr t),
             (''resource'', JDict ri), (''action_result'', JDict r),
             (''severity'', JStr (if get_or r ''status'' JNull = JStr ''success''
                                  then ''INFO'' else ''ERROR''))]) (world s)),
       calls := calls s @ [LoggerInfo (JDict
            [(''timestamp'', JStr (isoformat a (clock s))), (''alert_type'', JStr t),
             (''resource'', JDict ri), (''action_result'', JDict r),
             (''severity'', JStr (if get_or r ''status'' JNull = JStr ''success''
                                  then ''INFO'' else ''ERROR''))])]\<rparr>"
  unfolding log_healing_action_def Let_def swallow snd_invoke ..

lemma send_slack_notification_state:
  "send_slack_notification a cfg m s =
     s\<lparr>world := snd (requests_post a (SLACK_WEBHOOK_URL cfg) [] (slack_payload m) (world s)),
       calls := calls s @ [HttpPost (SLACK_WEBHOOK_URL cfg) [] (slack_payload m)]\<rparr>"
  unfolding send_slack_notification_def swallow snd_invoke ..

lemma send_email_notification_state:
  "send_email_notification a cfg m t s =
     (if \<not> truthy_opt (SENDGRID_API_KEY cfg) \<or> NOTIFICATION_EMAIL cfg = [] then s
      else s\<lparr>world := snd (requests_post a (Some ''https://api.sendgrid.com/v3/mail/send'')
                       (email_headers cfg) (email_payload cfg m t) (world s)),
             calls := calls s @ [HttpPost (Some ''https://api.sendgrid.com/v3/mail/send'')
                             (email_headers cfg) (email_payload cfg m t)]\<rparr>)"
  unfolding send_email_notification_def swallow snd_invoke ..

lemma clock_log_healing_action: "clock (log_healing_action a t ri r s) = clock s"
  by (simp add: log_healing_action_state)

lemma clock_send_notification: "clock (send_notification a cfg t ri r s) = clock s"
  by (simp add: send_notification_def Let_def send_slack_notification_state
        send_email_notification_state split: sum.splits)

lemma calls_send_notification:
  "calls (send_notification a cfg t ri r s) =
     calls s @
     (case format_notification_message a t ri r (clock s) of
        Inl e \<Rightarrow> []
      | Inr m \<Rightarrow>
          (if truthy_opt (SLACK_WEBHOOK_URL cfg)
           then [HttpPost (SLACK_WEBHOOK_URL cfg) [] (slack_payload m)] else [])
          @ (if truthy_opt (SENDGRID_API_KEY cfg) \<and> NOTIFICATION_EMAIL cfg \<noteq> []
             then [HttpPost (Some ''https://api.sendgrid.com/v3/mail/send'')
                     (email_headers cfg) (email_payload cfg m t)] else []))"
proof (cases "format_notification_message a t ri r (clock s)")
  case (Inl e)
  then show ?thesis by (simp add: send_notification_def)
next
  case (Inr m)
  then show ?thesis
    by (simp add: send_notification_def Let_def send_slack_notification_state
          send_email_notification_state)
qed


subsection \<open>The remediation does not depend on the sinks\<close>

lemma py_str_sinks:
  "py_str (a\<lparr>requests_post := post, logger_info_json := lg\<rparr>) v = py_str a v"
  by (cases v) (simp_all add: py_str_def)

lemma zone_wait_args_sinks:
  "zone_wait_args (a\<lparr>requests_post := post, logger_info_json := lg\<rparr>) operation c p z
     = zone_wait_args a operation c p z"
  by (simp add: zone_wait_args_def cong: option.case_cong)

lemma wait_for_operation_sinks:
  "wait_for_operation (a\<lparr>requests_post := post, logger_info_json := lg\<rparr>) operation ty c p z t s
     = wait_for_operation a operation ty c p z t s"
  by (simp add: wait_for_operation_def zone_wait_args_sinks py_str_sinks Let_def
        cong: option.case_cong prod.case_cong if_cong)

lemma restart_vm_instance_sinks:
  "restart_vm_instance (a\<lparr>requests_post := post, logger_info_json := lg\<rparr>)
      (cfg\<lparr>SLACK_WEBHOOK_URL := slack, SENDGRID_API_KEY := k, NOTIFICATION_EMAIL := email,
            SENDGRID_SENDER_EMAIL := sender\<rparr>) n s
     = restart_vm_instance a cfg n s"
  by (simp add: restart_vm_instance_def wait_for_operation_sinks vm_restart_success_def
        py_str_sinks cong: sum.case_cong prod.case_cong option.case_cong)

lemma service_path_sinks:
  "service_path (a\<lparr>requests_post := post, logger_info_json := lg\<rparr>)
      (cfg\<lparr>SLACK_WEBHOOK_URL := slack, SENDGRID_API_KEY := k, NOTIFICATION_EMAIL := email,
            SENDGRID_SENDER_EMAIL := sender\<rparr>) n
     = service_path a cfg n"
  by (simp add: service_path_def py_str_sinks)

lemma scale_cloud_run_service_sinks:
  "scale_cloud_run_service (a\<lparr>requests_post := post, logger_info_json := lg\<rparr>)
      (cfg\<lparr>SLACK_WEBHOOK_URL := slack, SENDGRID_API_KEY := k, NOTIFICATION_EMAIL := email,
            SENDGRID_SENDER_EMAIL := sender\<rparr>) n s
     = scale_cloud_run_service a cfg n s"
  by (simp add: scale_cloud_run_service_def service_path_sinks scale_success_def
        scale_skipped_def py_str_sinks Let_def
        cong: sum.case_cong prod.case_cong option.case_cong if_cong)

lemma restart_cloud_run_service_sinks:
  "restart_cloud_run_service (a\<lparr>requests_post := post, logger_info_json := lg\<rparr>)
      (cfg\<lparr>SLACK_WEBHOOK_URL := slack, SENDGRID_API_KEY := k, NOTIFICATION_EMAIL := email,
            SENDGRID_SENDER_EMAIL := sender\<rparr>) n s
     = restart_cloud_run_service a cfg n s"
  by (simp add: restart_cloud_run_service_def service_path_sinks restart_success_def
        py_str_sinks Let_def cong: sum.case_cong prod.case_cong option.case_cong)

lemma alert_only_unsupported_sinks:
  "alert_only_unsupported (a\<lparr>requests_post := post, logger_info_json := lg\<rparr>) ty
     = alert_only_unsupported a ty"
  by (simp add: alert_only_unsupported_def py_str_sinks)

lemma handle_service_down_sinks:
  "handle_service_down (a\<lparr>requests_post := post, logger_info_json := lg\<rparr>)
      (cfg\<lparr>SLACK_WEBHOOK_URL := slack, SENDGRID_API_KEY := k, NOTIFICATION_EMAIL := email,
            SENDGRID_SENDER_EMAIL := sender\<rparr>) ri d s
     = handle_service_down a cfg ri d s"
  by (simp add: handle_service_down_def restart_vm_instance_sinks
        restart_cloud_run_service_sinks alert_only_unsupported_sinks Let_def)

lemma handle_high_cpu_sinks:
  "handle_high_cpu (a\<lparr>requests_post := post, logger_info_json := lg\<rparr>)
      (cfg\<lparr>SLACK_WEBHOOK_URL := slack, SENDGRID_API_KEY := k, NOTIFICATION_EMAIL := email,
            SENDGRID_SENDER_EMAIL := sender\<rparr>) ri d s
     = handle_high_cpu a cfg ri d s"
  by (simp add: handle_high_cpu_def restart_vm_instance_sinks
        scale_cloud_run_service_sinks alert_only_unsupported_sinks Let_def)

lemma handle_error_rate_spike_sinks:
  "handle_error_rate_spike (a\<lparr>requests_post := post, logger_info_json := lg\<rparr>)
      (cfg\<lparr>SLACK_WEBHOOK_URL := slack, SENDGRID_API_KEY := k, NOTIFICATION_EMAIL := email,
            SENDGRID_SENDER_EMAIL := sender\<rparr>) ri d s
     = handle_error_rate_spike a cfg ri d s"
  by (simp add: handle_error_rate_spike_def handle_service_down_sinks
        scale_cloud_run_service_sinks restart_cloud_run_service_sinks Let_def
        cong: prod.case_cong if_cong)

lemma execute_healing_action_sinks:
  "execute_healing_action (a\<lparr>requests_post := post, logger_info_json := lg\<rparr>)
      (cfg\<lparr>SLACK_WEBHOOK_URL := slack, SENDGRID_API_KEY := k, NOTIFICATION_EMAIL := email,
            SENDGRID_SENDER_EMAIL := sender\<rparr>) t ri d s
     = execute_healing_action a cfg t ri d s"
  by (simp add: execute_healing_action_def recovery_actions_def handle_high_cpu_sinks
        handle_service_down_sinks handle_memory_leak_def handle_error_rate_spike_sinks)

lemma fst_process_alert:
  "fst (process_alert a cfg d s) =
     (case classify_alert d of
        Inl e \<Rightarrow> error_result a e s
      | Inr t \<Rightarrow>
         (case extract_resource_info d of
            Inl e \<Rightarrow> error_result a e s
          | Inr ri \<Rightarrow>
              [(''status'', JStr ''success''), (''alert_type'', JStr t), (''resource'', JDict ri),
               (''action_taken'',
                  get_or (fst (execute_healing_action a cfg t ri d s)) ''action'' (JStr ''none'')),
               (''timestamp'',
                  JStr (isoformat a (clock (snd (execute_healing_action a cfg t ri d s)))))]))"
  by (simp add: process_alert_def Let_def clock_send_notification clock_log_healing_action
        split: sum.splits prod.splits)

text \<open>
  Claim C9. Whatever the log sink and the notification sinks do (return or raise), and
  however they are configured, the result that \<open>process_alert\<close> returns is the same: it
  equals the result under any other behaviour and configuration of the sinks. A sink
  whose configuration is absent is not called: \<open>send_notification\<close> posts to the chat
  webhook only when its URL is set, and to the mail service only when its key and the
  recipient are set, and issues no other call.
\<close>

theorem sinks_do_not_alter_result:
  "fst (process_alert (a\<lparr>requests_post := post, logger_info_json := lg\<rparr>)
          (cfg\<lparr>SLACK_WEBHOOK_URL := slack, SENDGRID_API_KEY := k, NOTIFICATION_EMAIL := email,
                SENDGRID_SENDER_EMAIL := sender\<rparr>) d s)
     = fst (process_alert a cfg d s)
   \<and> calls (send_notification a cfg t ri r s) =
       calls s @
       (case format_notification_message a t ri r (clock s) of
          Inl e \<Rightarrow> []
        | Inr m \<Rightarrow>
            (if truthy_opt (SLACK_WEBHOOK_URL cfg)
             then [HttpPost (SLACK_WEBHOOK_URL cfg) [] (slack_payload m)] else [])
            @ (if truthy_opt (SENDGRID_API_KEY cfg) \<and> NOTIFICATION_EMAIL cfg \<noteq> []
               then [HttpPost (Some ''https://api.sendgrid.com/v3/mail/send'')
                       (email_headers cfg) (email_payload cfg m t)] else []))"
proof
  show "fst (process_alert (a\<lparr>requests_post := post, logger_info_json := lg\<rparr>)
          (cfg\<lparr>SLACK_WEBHOOK_URL := slack, SENDGRID_API_KEY := k, NOTIFICATION_EMAIL := email,
                SENDGRID_SENDER_EMAIL := sender\<rparr>) d s)
     = fst (process_alert a cfg d s)"
    unfolding fst_process_alert execute_healing_action_sinks
    by (simp add: error_result_def cong: sum.case_cong)
next
  show "calls (send_notification a cfg t ri r s) =
       calls s @
       (case format_notification_message a t ri r (clock s) of
          Inl e \<Rightarrow> []
        | Inr m \<Rightarrow>
            (if truthy_opt (SLACK_WEBHOOK_URL cfg)
             then [HttpPost (SLACK_WEBHOOK_URL cfg) [] (slack_payload m)] else [])
            @ (if truthy_opt (SENDGRID_API_KEY cfg) \<and> NOTIFICATION_EMAIL cfg \<noteq> []
               then [HttpPost (Some ''https://api.sendgrid.com/v3/mail/send'')
                       (email_headers cfg) (email_payload cfg m t)] else []))"
    by (rule calls_send_notification)
qed

section \<open>Restarting a virtual machine\<close>


lemma calls_invoke: "invoke c f s = (r, s') \<Longrightarrow> calls s' = calls s @ [c]"
  by (auto simp: invoke_def split: prod.splits)











section \<open>Scaling a service\<close>

lemma invoke_eq:
  "invoke c f s = (fst (f (world s)), s\<lparr>world := snd (f (world s)), calls := calls s @ [c]\<rparr>)"
  by (simp add: invoke_def split: prod.splits)

lemma status_scale_skipped: "status_is (scale_skipped a n m) st = (st = ''skipped'')"
  by (auto simp: status_is_def scale_skipped_def)

lemma status_scale_failed: "status_is (scale_failed n e) st = (st = ''failed'')"
  by (auto simp: status_is_def scale_failed_def)

lemma status_scale_success: "status_is (scale_success a n m) st = (st = ''success'')"
  by (auto simp: status_is_def scale_success_def)

lemma library_rejects_scale_mask:
  "library_update_service_request svc ''template.scaling.max_instance_count''
     = Inl (ValueError (''Fail to parse FieldMask: Path name template.scaling.max_instance_count must not contain ''
                  @ [CHR 0x22, CHR ''_'', CHR 0x22] @ ''s.''))"
  by (simp add: library_update_service_request_def field_mask_from_json_string_def is_upper_def)

lemma library_accepts_template_mask:
  "library_update_service_request svc ''template''
     = Inr \<lparr>req_service = svc, update_mask = [''template'']\<rparr>"
  by (simp add: library_update_service_request_def field_mask_from_json_string_def is_upper_def)

lemma scale_at_cap:
  assumes "get_service a (service_path a cfg n) (world s) = (Inr svc, w1)"
    and "50 \<le> max_instance_count (template svc)"
  shows "scale_cloud_run_service a cfg n s
           = (scale_skipped a n 50, s\<lparr>world := w1, calls := calls s @ [GetService (service_path a cfg n)]\<rparr>)"
  using assms by (simp add: scale_cloud_run_service_def invoke_eq Let_def)

lemma repeat_scale_at_cap:
  assumes "get_service a (service_path a cfg n) w = (Inr svc, w)"
    and "50 \<le> max_instance_count (template svc)"
  shows "world s = w \<Longrightarrow>
         repeat_scale a cfg n k s
           = (replicate k (scale_skipped a n 50),
              s\<lparr>calls := calls s @ replicate k (GetService (service_path a cfg n))\<rparr>)"
proof (induction k arbitrary: s)
  case 0
  then show ?case by simp
next
  case (Suc k)
  let ?s1 = "s\<lparr>world := w, calls := calls s @ [GetService (service_path a cfg n)]\<rparr>"
  from assms Suc.prems have step: "scale_cloud_run_service a cfg n s = (scale_skipped a n 50, ?s1)"
    by (simp add: scale_at_cap)
  have "world ?s1 = w" by simp
  from Suc.IH [OF this] step Suc.prems show ?case
    by (simp add: replicate_app_Cons_same)
qed

lemma scale_below_cap:
  assumes get: "get_service a (service_path a cfg n) (world s) = (Inr svc, w1)"
    and below: "max_instance_count (template svc) < 50"
    and run: "scale_cloud_run_service a cfg n s = (r, s')"
  shows "(\<exists>e. update_service_request a
               (scaled_service (service_path a cfg n) (min ((if max_instance_count (template svc) \<noteq> 0
                  then max_instance_count (template svc) else 10) + 5) 50))
               ''template.scaling.max_instance_count'' = Inl e
             \<and> r = scale_failed n e
             \<and> s' = s\<lparr>world := w1, calls := calls s @ [GetService (service_path a cfg n)]\<rparr>)
          \<or> (\<exists>rq e. update_service_request a
               (scaled_service (service_path a cfg n) (min ((if max_instance_count (template svc) \<noteq> 0
                  then max_instance_count (template svc) else 10) + 5) 50))
               ''template.scaling.max_instance_count'' = Inr rq
             \<and> invoke (UpdateService rq) (update_service a rq)
                  (s\<lparr>world := w1, calls := calls s @ [GetService (service_path a cfg n)]\<rparr>) = (Inl e, s')
             \<and> r = scale_failed n e)
          \<or> (\<exists>rq operation s2 e. update_service_request a
               (scaled_service (service_path a cfg n) (min ((if max_instance_count (template svc) \<noteq> 0
                  then max_instance_count (template svc) else 10) + 5) 50))
               ''template.scaling.max_instance_count'' = Inr rq
             \<and> invoke (UpdateService rq) (update_service a rq)
                  (s\<lparr>world := w1, calls := calls s @ [GetService (service_path a cfg n)]\<rparr>) = (Inr operation, s2)
             \<and> invoke (OperationResult operation None) (operation_result a operation None) s2
                  = (Some e, s')
             \<and> r = scale_failed n e)
          \<or> (\<exists>rq operation s2. update_service_request a
               (scaled_service (service_path a cfg n) (min ((if max_instance_count (template svc) \<noteq> 0
                  then max_instance_count (template svc) else 10) + 5) 50))
               ''template.scaling.max_instance_count'' = Inr rq
             \<and> invoke (UpdateService rq) (update_service a rq)
                  (s\<lparr>world := w1, calls := calls s @ [GetService (service_path a cfg n)]\<rparr>) = (Inr operation, s2)
             \<and> invoke (OperationResult operation None) (operation_result a operation None) s2
                  = (None, s')
             \<and> r = scale_success a n (min ((if max_instance_count (template svc) \<noteq> 0
                  then max_instance_count (template svc) else 10) + 5) 50))"
proof -
  from below have gt: "(if max_instance_count (template svc) \<noteq> 0
                  then max_instance_count (template svc) else 10) < (min ((if max_instance_count (template svc) \<noteq> 0
                  then max_instance_count (template svc) else 10) + 5) 50)"
    by auto
  from run get gt show ?thesis
    unfolding scale_cloud_run_service_def Let_def invoke_eq [of "GetService (service_path a cfg n)"]
    by (auto split: prod.splits sum.splits option.splits)
qed

text \<open>
  Claim C3. Let the service be read with scaling ceiling \<open>max_instance_count\<close>. When the
  ceiling is at least the cap of 50, the new ceiling \<open>min (current + 5) 50\<close> is not greater
  than the current one: the outcome is \<open>skipped\<close> (neither \<open>failed\<close> nor \<open>success\<close>) and the
  only call issued is the read of the service, so no update is issued; when moreover
  reading the service leaves the world as it was, any number of invocations in a row
  return \<open>skipped\<close> each time and issue only reads. When the ceiling is below the cap, the
  outcome and the state are those of exactly one of four courses: building the update
  request for the new ceiling raises; the update call raises; the wait for the update
  operation raises; or all three return and the outcome is \<open>success\<close> for the new ceiling.
  With the update request built as the client library builds it, the first course is
  the one taken: the mask \<open>template.scaling.max_instance_count\<close> is rejected, the outcome is
  \<open>failed\<close> and no update call is issued, whereas the claim has the new ceiling applied.
\<close>

theorem scale_cloud_run_service_cap:
  assumes get: "get_service a (service_path a cfg n) (world s) = (Inr svc, w1)"
    and run: "scale_cloud_run_service a cfg n s = (r, s')"
  shows "(50 \<le> max_instance_count (template svc) \<longrightarrow>
            r = scale_skipped a n 50
          \<and> status_is r ''skipped'' \<and> \<not> status_is r ''failed'' \<and> \<not> status_is r ''success''
          \<and> s' = s\<lparr>world := w1, calls := calls s @ [GetService (service_path a cfg n)]\<rparr>
          \<and> (w1 = world s \<longrightarrow>
               (\<forall>k. repeat_scale a cfg n k s
                      = (replicate k (scale_skipped a n 50),
                         s\<lparr>calls := calls s @ replicate k (GetService (service_path a cfg n))\<rparr>))))
       \<and> (max_instance_count (template svc) < 50 \<longrightarrow>
            (\<exists>e. update_service_request a
               (scaled_service (service_path a cfg n) (min ((if max_instance_count (template svc) \<noteq> 0
                  then max_instance_count (template svc) else 10) + 5) 50))
               ''template.scaling.max_instance_count'' = Inl e
             \<and> r = scale_failed n e
             \<and> s' = s\<lparr>world := w1, calls := calls s @ [GetService (service_path a cfg n)]\<rparr>)
          \<or> (\<exists>rq e. update_service_request a
               (scaled_service (service_path a cfg n) (min ((if max_instance_count (template svc) \<noteq> 0
                  then max_instance_count (template svc) else 10) + 5) 50))
               ''template.scaling.max_instance_count'' = Inr rq
             \<and> invoke (UpdateService rq) (update_service a rq)
                  (s\<lparr>world := w1, calls := calls s @ [GetService (service_path a cfg n)]\<rparr>) = (Inl e, s')
             \<and> r = scale_failed n e)
          \<or> (\<exists>rq operation s2 e. update_service_request a
               (scaled_service (service_path a cfg n) (min ((if max_instance_count (template svc) \<noteq> 0
                  then max_instance_count (template svc) else 10) + 5) 50))
               ''template.scaling.max_instance_count'' = Inr rq
             \<and> invoke (UpdateService rq) (update_service a rq)
                  (s\<lparr>world := w1, calls := calls s @ [GetService (service_path a cfg n)]\<rparr>) = (Inr operation, s2)
             \<and> invoke (OperationResult operation None) (operation_result a operation None) s2
                  = (Some e, s')
             \<and> r = scale_failed n e)
          \<or> (\<exists>rq operation s2. update_service_request a
               (scaled_service (service_path a cfg n) (min ((if max_instance_count (template svc) \<noteq> 0
                  then max_instance_count (template svc) else 10) + 5) 50))
               ''template.scaling.max_instance_count'' = Inr rq
             \<and> invoke (UpdateService rq) (update_service a rq)
                  (s\<lparr>world := w1, calls := calls s @ [GetService (service_path a cfg n)]\<rparr>) = (Inr operation, s2)
             \<and> invoke (OperationResult operation None) (operation_result a operation None) s2
                  = (None, s')
             \<and> r = scale_success a n (min ((if max_instance_count (template svc) \<noteq> 0
                  then max_instance_count (template svc) else 10) + 5) 50)))
       \<and> (max_instance_count (template svc) < 50
            \<and> update_service_request a = library_update_service_request \<longrightarrow>
            r = scale_failed n (ValueError (''Fail to parse FieldMask: Path name template.scaling.max_instance_count must not contain ''
                  @ [CHR 0x22, CHR ''_'', CHR 0x22] @ ''s.''))
          \<and> status_is r ''failed''
          \<and> s' = s\<lparr>world := w1, calls := calls s @ [GetService (service_path a cfg n)]\<rparr>)"
proof (intro conjI impI)
  assume cap: "50 \<le> max_instance_count (template svc)"
  from scale_at_cap [OF get cap] run
  have r: "r = scale_skipped a n 50"
    and s': "s' = s\<lparr>world := w1, calls := calls s @ [GetService (service_path a cfg n)]\<rparr>"
    by simp_all
  from r show "r = scale_skipped a n 50" .
  from r show "status_is r ''skipped''" by (simp add: status_scale_skipped)
  from r show "\<not> status_is r ''failed''" by (simp add: status_scale_skipped)
  from r show "\<not> status_is r ''success''" by (simp add: status_scale_skipped)
  from s' show "s' = s\<lparr>world := w1, calls := calls s @ [GetService (service_path a cfg n)]\<rparr>" .
  assume "w1 = world s"
  with get have "get_service a (service_path a cfg n) (world s) = (Inr svc, world s)"
    by simp
  from repeat_scale_at_cap [OF this cap]
  show "\<forall>k. repeat_scale a cfg n k s
              = (replicate k (scale_skipped a n 50),
                 s\<lparr>calls := calls s @ replicate k (GetService (service_path a cfg n))\<rparr>)"
    by simp
next
  assume "max_instance_count (template svc) < 50"
  from scale_below_cap [OF get this run]
  show "(\<exists>e. update_service_request a
               (scaled_service (service_path a cfg n) (min ((if max_instance_count (template svc) \<noteq> 0
                  then max_instance_count (template svc) else 10) + 5) 50))
               ''template.scaling.max_instance_count'' = Inl e
             \<and> r = scale_failed n e
             \<and> s' = s\<lparr>world := w1, calls := calls s @ [GetService (service_path a cfg n)]\<rparr>)
          \<or> (\<exists>rq e. update_service_request a
               (scaled_service (service_path a cfg n) (min ((if max_instance_count (template svc) \<noteq> 0
                  then max_instance_count (template svc) else 10) + 5) 50))
               ''template.scaling.max_instance_count'' = Inr rq
             \<and> invoke (UpdateService rq) (update_service a rq)
                  (s\<lparr>world := w1, calls := calls s @ [GetService (service_path a cfg n)]\<rparr>) = (Inl e, s')
             \<and> r = scale_failed n e)
          \<or> (\<exists>rq operation s2 e. update_service_request a
               (scaled_service (service_path a cfg n) (min ((if max_instance_count (template svc) \<noteq> 0
                  then max_instance_count (template svc) else 10) + 5) 50))
               ''template.scaling.max_instance_count'' = Inr rq
             \<and> invoke (UpdateService rq) (update_service a rq)
                  (s\<lparr>world := w1, calls := calls s @ [GetService (service_path a cfg n)]\<rparr>) = (Inr operation, s2)
             \<and> invoke (OperationResult operation None) (operation_result a operation None) s2
                  = (Some e, s')
             \<and> r = scale_failed n e)
          \<or> (\<exists>rq operation s2. update_service_request a
               (scaled_service (service_path a cfg n) (min ((if max_instance_count (template svc) \<noteq> 0
                  then max_instance_count (template svc) else 10) + 5) 50))
               ''template.scaling.max_instance_count'' = Inr rq
             \<and> invoke (UpdateService rq) (update_service a rq)
                  (s\<lparr>world := w1, calls := calls s @ [GetService (service_path a cfg n)]\<rparr>) = (Inr operation, s2)
             \<and> invoke (OperationResult operation None) (operation_result a operation None) s2
                  = (None, s')
             \<and> r = scale_success a n (min ((if max_instance_count (template svc) \<noteq> 0
                  then max_instance_count (template svc) else 10) + 5) 50))" .
next
  assume b: "max_instance_count (template svc) < 50
            \<and> update_service_request a = library_update_service_request"
  then have below: "max_instance_count (template svc) < 50"
    and lib: "update_service_request a = library_update_service_request"
    by simp_all
  from scale_below_cap [OF get below run]
  have "r = scale_failed n (ValueError (''Fail to parse FieldMask: Path name template.scaling.max_instance_count must not contain ''
                  @ [CHR 0x22, CHR ''_'', CHR 0x22] @ ''s.''))
        \<and> s' = s\<lparr>world := w1, calls := calls s @ [GetService (service_path a cfg n)]\<rparr>"
    unfolding lib library_rejects_scale_mask by simp
  then show "r = scale_failed n (ValueError (''Fail to parse FieldMask: Path name template.scaling.max_instance_count must not contain ''
                  @ [CHR 0x22, CHR ''_'', CHR 0x22] @ ''s.''))"
    and "s' = s\<lparr>world := w1, calls := calls s @ [GetService (service_path a cfg n)]\<rparr>"
    and "status_is r ''failed''"
    by (simp_all add: status_scale_failed)
qed


theorem scale_cloud_run_service_cap_witness:
  "get_service (example_api True True)
      (service_path (example_api True True) example_config (JStr ''api-svc'')) 50
     = (Inr (example_service ''projects/demo/locations/us-central1/services/api-svc'' 50), 50)
   \<and> (50::int) \<le> max_instance_count
         (template (example_service ''projects/demo/locations/us-central1/services/api-svc'' 50))
   \<and> scale_cloud_run_service (example_api True True) example_config (JStr ''api-svc'')
        (example_state 50)
     = (scale_skipped (example_api True True) (JStr ''api-svc'') 50,
        \<lparr>world = 50,
         calls = [GetService ''projects/demo/locations/us-central1/services/api-svc''],
         clock = 0\<rparr>)
   \<and> repeat_scale (example_api True True) example_config (JStr ''api-svc'') 3 (example_state 50)
     = (replicate 3 (scale_skipped (example_api True True) (JStr ''api-svc'') 50),
        \<lparr>world = 50,
         calls = replicate 3 (GetService ''projects/demo/locations/us-central1/services/api-svc''),
         clock = 0\<rparr>)
   \<and> get_service (example_api True True)
      (service_path (example_api True True) example_config (JStr ''api-svc'')) 10
     = (Inr (example_service ''projects/demo/locations/us-central1/services/api-svc'' 10), 10)
   \<and> max_instance_count
         (template (example_service ''projects/demo/locations/us-central1/services/api-svc'' 10))
       < (50::int)
   \<and> update_service_request (example_api True True) = library_update_service_request
   \<and> scale_cloud_run_service (example_api True True) example_config (JStr ''api-svc'')
        (example_state 10)
     = (scale_failed (JStr ''api-svc'') (ValueError (''Fail to parse FieldMask: Path name template.scaling.max_instance_count must not contain ''
            @ [CHR 0x22, CHR ''_'', CHR 0x22] @ ''s.'')),
        \<lparr>world = 10,
         calls = [GetService ''projects/demo/locations/us-central1/services/api-svc''],
         clock = 0\<rparr>)"
proof -
  let ?a = "example_api True True"
  let ?p = "''projects/demo/locations/us-central1/services/api-svc''"
  have p: "service_path ?a example_config (JStr ''api-svc'') = ?p"
    by (simp add: service_path_def example_config_def py_str_def str_opt_def)
  have get50: "get_service ?a (service_path ?a example_config (JStr ''api-svc''))
               (world (example_state 50))
             = (Inr (example_service ?p 50), 50)"
    unfolding p by (simp add: example_api_def example_state_def)
  have get10: "get_service ?a (service_path ?a example_config (JStr ''api-svc''))
               (world (example_state 10))
             = (Inr (example_service ?p 10), 10)"
    unfolding p by (simp add: example_api_def example_state_def)
  have cap: "(50::int) \<le> max_instance_count (template (example_service ?p 50))"
    by (simp add: example_service_def)
  have below: "max_instance_count (template (example_service ?p 10)) < (50::int)"
    by (simp add: example_service_def)
  have lib: "update_service_request ?a = library_update_service_request"
    by (simp add: example_api_def)
  obtain r50 s50 where run50: "scale_cloud_run_service ?a example_config (JStr ''api-svc'')
                            (example_state 50) = (r50, s50)"
    by (cases "scale_cloud_run_service ?a example_config (JStr ''api-svc'') (example_state 50)")
  obtain r10 s10 where run10: "scale_cloud_run_service ?a example_config (JStr ''api-svc'')
                            (example_state 10) = (r10, s10)"
    by (cases "scale_cloud_run_service ?a example_config (JStr ''api-svc'') (example_state 10)")
  have w: "(50::int) = world (example_state 50)"
    by (simp add: example_state_def)
  from scale_cloud_run_service_cap [OF get50 run50] cap w
  have "r50 = scale_skipped ?a (JStr ''api-svc'') 50"
    and "s50 = (example_state 50)\<lparr>world := 50,
                 calls := calls (example_state 50)
                   @ [GetService (service_path ?a example_config (JStr ''api-svc''))]\<rparr>"
    and "repeat_scale ?a example_config (JStr ''api-svc'') 3 (example_state 50)
           = (replicate 3 (scale_skipped ?a (JStr ''api-svc'') 50),
              (example_state 50)\<lparr>calls := calls (example_state 50)
                 @ replicate 3 (GetService (service_path ?a example_config (JStr ''api-svc'')))\<rparr>)"
    by blast+
  moreover from scale_cloud_run_service_cap [OF get10 run10] below lib
  have "r10 = scale_failed (JStr ''api-svc'') (ValueError (''Fail to parse FieldMask: Path name template.scaling.max_instance_count must not contain ''
            @ [CHR 0x22, CHR ''_'', CHR 0x22] @ ''s.''))"
    and "s10 = (example_state 10)\<lparr>world := 10,
                 calls := calls (example_state 10)
                   @ [GetService (service_path ?a example_config (JStr ''api-svc''))]\<rparr>"
    by blast+
  ultimately show ?thesis
    using run50 run10 get50 get10 cap below lib
    unfolding p by (simp add: example_state_def)
qed

section \<open>Escalation from scaling to restart\<close>

lemma status_is_get_or:
  "(get_or r ''status'' JNull \<noteq> JStr ''success'') = (\<not> status_is r ''success'')"
  by (simp add: get_or_def status_is_def split: option.splits)

lemma scale_calls_first:
  assumes "scale_cloud_run_service a cfg n s = (r, s')"
  shows "\<exists>cs. calls s' = calls s @ GetService (service_path a cfg n) # cs"
proof -
  obtain g w1 where get: "get_service a (service_path a cfg n) (world s) = (g, w1)"
    by (cases "get_service a (service_path a cfg n) (world s)")
  show ?thesis
  proof (cases g)
    case (Inl e)
    with get assms show ?thesis
      by (auto simp: scale_cloud_run_service_def invoke_eq Let_def)
  next
    case (Inr svc)
    show ?thesis
    proof (cases "50 \<le> max_instance_count (template svc)")
      case True
      from scale_at_cap [OF get [unfolded Inr] True] assms show ?thesis
        by auto
    next
      case False
      then have "max_instance_count (template svc) < 50" by simp
      from scale_below_cap [OF get [unfolded Inr] this assms] show ?thesis
        by (auto dest!: calls_invoke)
    qed
  qed
qed

lemma restart_cloud_run_service_action:
  "map_of (fst (restart_cloud_run_service a cfg n s)) ''action'' = Some (JStr ''cloud_run_restart'')"
  by (simp add: restart_cloud_run_service_def Let_def restart_failed_def restart_success_def
        split: prod.splits sum.splits option.splits)

lemma restart_calls_first:
  "\<exists>cs. calls (snd (restart_cloud_run_service a cfg n s))
          = calls s @ GetService (service_path a cfg n) # cs"
  by (auto simp: restart_cloud_run_service_def Let_def invoke_eq
        split: prod.splits sum.splits option.splits)

lemma recovery_actions_error_rate_spike:
  "recovery_actions ''error_rate_spike'' = Some handle_error_rate_spike"
  by (simp add: recovery_actions_def)

text \<open>
  Claim C1. For an alert of type \<open>error_rate_spike\<close> on a resource of type
  \<open>cloud_run_revision\<close>, the engine dispatches to \<open>handle_error_rate_spike\<close>, which first
  runs the scale action: the first call issued is the scale action's read of the service.
  When the scale outcome has status \<open>success\<close>, that outcome and the state that scaling
  left are returned, so the restart action is not run. When the scale outcome has any
  other status, the restart action runs in the state that scaling left, starting with
  its own read of the service, and its outcome, whose action is \<open>cloud_run_restart\<close>, is
  the one returned.
\<close>

theorem handle_error_rate_spike_escalation:
  assumes ty: "get_or resource_info ''type'' JNull = JStr ''cloud_run_revision''"
    and scale: "scale_cloud_run_service a cfg (get_or resource_info ''name'' JNull) s = (r1, s1)"
  shows "execute_healing_action a cfg ''error_rate_spike'' resource_info alert_data s
           = (if status_is r1 ''success'' then (r1, s1)
              else restart_cloud_run_service a cfg (get_or resource_info ''name'' JNull) s1)
       \<and> handle_error_rate_spike a cfg resource_info alert_data s
           = (if status_is r1 ''success'' then (r1, s1)
              else restart_cloud_run_service a cfg (get_or resource_info ''name'' JNull) s1)
       \<and> (\<exists>cs. calls s1 = calls s @ GetService (service_path a cfg (get_or resource_info ''name'' JNull)) # cs)
       \<and> map_of (fst (restart_cloud_run_service a cfg (get_or resource_info ''name'' JNull) s1)) ''action''
           = Some (JStr ''cloud_run_restart'')
       \<and> (\<exists>cs. calls (snd (restart_cloud_run_service a cfg (get_or resource_info ''name'' JNull) s1))
              = calls s1 @ GetService (service_path a cfg (get_or resource_info ''name'' JNull)) # cs)"
proof (intro conjI)
  from ty scale
  show h: "handle_error_rate_spike a cfg resource_info alert_data s
           = (if status_is r1 ''success'' then (r1, s1)
              else restart_cloud_run_service a cfg (get_or resource_info ''name'' JNull) s1)"
    by (simp add: handle_error_rate_spike_def status_is_get_or)
  then show "execute_healing_action a cfg ''error_rate_spike'' resource_info alert_data s
           = (if status_is r1 ''success'' then (r1, s1)
              else restart_cloud_run_service a cfg (get_or resource_info ''name'' JNull) s1)"
    by (simp add: execute_healing_action_def recovery_actions_error_rate_spike)
  from scale_calls_first [OF scale]
  show "\<exists>cs. calls s1 = calls s @ GetService (service_path a cfg (get_or resource_info ''name'' JNull)) # cs" .
  show "map_of (fst (restart_cloud_run_service a cfg (get_or resource_info ''name'' JNull) s1)) ''action''
           = Some (JStr ''cloud_run_restart'')"
    by (rule restart_cloud_run_service_action)
  show "\<exists>cs. calls (snd (restart_cloud_run_service a cfg (get_or resource_info ''name'' JNull) s1))
              = calls s1 @ GetService (service_path a cfg (get_or resource_info ''name'' JNull)) # cs"
    by (rule restart_calls_first)
qed


theorem handle_error_rate_spike_escalation_witness:
  "get_or [(''type'', JStr ''cloud_run_revision''),
          (''labels'', JDict [(''service_name'', JStr ''api-svc'')]),
          (''name'', JStr ''api-svc'')] ''type'' JNull = JStr ''cloud_run_revision''
   \<and> scale_cloud_run_service (example_api True True) example_config (JStr ''api-svc'')
        (example_state 50)
     = (scale_skipped (example_api True True) (JStr ''api-svc'') 50,
        \<lparr>world = 50,
         calls = [GetService ''projects/demo/locations/us-central1/services/api-svc''],
         clock = 0\<rparr>)
   \<and> \<not> status_is (scale_skipped (example_api True True) (JStr ''api-svc'') 50) ''success''
   \<and> execute_healing_action (example_api True True) example_config ''error_rate_spike''
         [(''type'', JStr ''cloud_run_revision''),
          (''labels'', JDict [(''service_name'', JStr ''api-svc'')]),
          (''name'', JStr ''api-svc'')] (JDict []) (example_state 50)
     = (restart_success (example_api True True) (JStr ''api-svc''), \<lparr>world = 50,
         calls = [GetService ''projects/demo/locations/us-central1/services/api-svc'',
                  GetService ''projects/demo/locations/us-central1/services/api-svc'',
                  UpdateService (example_restart_request 50),
                  OperationResult (example_operation 103) None],
         clock = 0\<rparr>)
   \<and> scale_cloud_run_service (example_api True True) example_config (JStr ''api-svc'')
        (example_state 10)
     = (scale_failed (JStr ''api-svc'') (ValueError (''Fail to parse FieldMask: Path name template.scaling.max_instance_count must not contain ''
            @ [CHR 0x22, CHR ''_'', CHR 0x22] @ ''s.'')),
        \<lparr>world = 10,
         calls = [GetService ''projects/demo/locations/us-central1/services/api-svc''],
         clock = 0\<rparr>)
   \<and> \<not> status_is (scale_failed (JStr ''api-svc'') (ValueError (''Fail to parse FieldMask: Path name template.scaling.max_instance_count must not contain ''
            @ [CHR 0x22, CHR ''_'', CHR 0x22] @ ''s.''))) ''success''
   \<and> execute_healing_action (example_api True True) example_config ''error_rate_spike''
         [(''type'', JStr ''cloud_run_revision''),
          (''labels'', JDict [(''service_name'', JStr ''api-svc'')]),
          (''name'', JStr ''api-svc'')] (JDict []) (example_state 10)
     = (restart_success (example_api True True) (JStr ''api-svc''), \<lparr>world = 10,
         calls = [GetService ''projects/demo/locations/us-central1/services/api-svc'',
                  GetService ''projects/demo/locations/us-central1/services/api-svc'',
                  UpdateService (example_restart_request 10),
                  OperationResult (example_operation 103) None],
         clock = 0\<rparr>)"
proof -
  let ?a = "example_api True True"
  let ?ri = "[(''type'', JStr ''cloud_run_revision''),
          (''labels'', JDict [(''service_name'', JStr ''api-svc'')]),
          (''name'', JStr ''api-svc'')]"
  let ?p = "''projects/demo/locations/us-central1/services/api-svc''"
  have ty: "get_or ?ri ''type'' JNull = JStr ''cloud_run_revision''"
    by (simp add: get_or_def)
  have nm: "get_or ?ri ''name'' JNull = JStr ''api-svc''"
    by (simp add: get_or_def)
  have p: "service_path ?a example_config (JStr ''api-svc'') = ?p"
    by (simp add: service_path_def example_config_def py_str_def str_opt_def)
  have lib: "update_service_request ?a = library_update_service_request"
    by (simp add: example_api_def)
  have at_cap: "scale_cloud_run_service ?a example_config (JStr ''api-svc'') (example_state 50)
     = (scale_skipped ?a (JStr ''api-svc'') 50,
        \<lparr>world = 50, calls = [GetService ?p], clock = 0\<rparr>)"
    by (simp only: scale_cloud_run_service_def p)
       (simp add: invoke_eq Let_def example_api_def example_state_def example_service_def)
  have below: "scale_cloud_run_service ?a example_config (JStr ''api-svc'') (example_state 10)
     = (scale_failed (JStr ''api-svc'') (ValueError (''Fail to parse FieldMask: Path name template.scaling.max_instance_count must not contain ''
            @ [CHR 0x22, CHR ''_'', CHR 0x22] @ ''s.'')),
        \<lparr>world = 10, calls = [GetService ?p], clock = 0\<rparr>)"
    by (simp only: scale_cloud_run_service_def p lib library_rejects_scale_mask)
       (simp add: invoke_eq Let_def example_api_def example_state_def example_service_def)
  have restart: "restart_cloud_run_service ?a example_config (JStr ''api-svc'')
        \<lparr>world = w, calls = [GetService ?p], clock = 0\<rparr>
     = (restart_success ?a (JStr ''api-svc''),
        \<lparr>world = w,
         calls = [GetService ?p, GetService ?p, UpdateService (example_restart_request w),
                  OperationResult (example_operation 103) None],
         clock = 0\<rparr>)" for w
    by (simp only: restart_cloud_run_service_def p lib library_accepts_template_mask)
       (simp add: invoke_eq Let_def example_api_def example_service_def restart_template_def
          example_restart_request_def)
  have skipped: "\<not> status_is (scale_skipped ?a (JStr ''api-svc'') 50) ''success''"
    by (simp add: status_scale_skipped)
  have failed: "\<not> status_is (scale_failed (JStr ''api-svc'') (ValueError (''Fail to parse FieldMask: Path name template.scaling.max_instance_count must not contain ''
            @ [CHR 0x22, CHR ''_'', CHR 0x22] @ ''s.''))) ''success''"
    by (simp add: status_scale_failed)
  have at_cap': "scale_cloud_run_service ?a example_config (get_or ?ri ''name'' JNull)
       (example_state 50)
     = (scale_skipped ?a (JStr ''api-svc'') 50,
        \<lparr>world = 50, calls = [GetService ?p], clock = 0\<rparr>)"
    unfolding nm by (rule at_cap)
  have below': "scale_cloud_run_service ?a example_config (get_or ?ri ''name'' JNull)
       (example_state 10)
     = (scale_failed (JStr ''api-svc'') (ValueError (''Fail to parse FieldMask: Path name template.scaling.max_instance_count must not contain ''
            @ [CHR 0x22, CHR ''_'', CHR 0x22] @ ''s.'')),
        \<lparr>world = 10, calls = [GetService ?p], clock = 0\<rparr>)"
    unfolding nm by (rule below)
  from handle_error_rate_spike_escalation [OF ty at_cap', of "JDict []"] skipped
  have esc50: "execute_healing_action ?a example_config ''error_rate_spike'' ?ri (JDict [])
                 (example_state 50)
               = (restart_success ?a (JStr ''api-svc''), \<lparr>world = 50,
         calls = [GetService ''projects/demo/locations/us-central1/services/api-svc'',
                  GetService ''projects/demo/locations/us-central1/services/api-svc'',
                  UpdateService (example_restart_request 50),
                  OperationResult (example_operation 103) None],
         clock = 0\<rparr>)"
    unfolding nm by (simp add: restart)
  from handle_error_rate_spike_escalation [OF ty below', of "JDict []"] failed
  have esc10: "execute_healing_action ?a example_config ''error_rate_spike'' ?ri (JDict [])
                 (example_state 10)
               = (restart_success ?a (JStr ''api-svc''), \<lparr>world = 10,
         calls = [GetService ''projects/demo/locations/us-central1/services/api-svc'',
                  GetService ''projects/demo/locations/us-central1/services/api-svc'',
                  UpdateService (example_restart_request 10),
                  OperationResult (example_operation 103) None],
         clock = 0\<rparr>)"
    unfolding nm by (simp add: restart)
  from ty at_cap skipped esc50 below failed esc10 show ?thesis
    by blast
qed

end
